theory Spec2Isabelle
  imports Complex_Main "HOL-Library.Log_Nat"
begin

section \<open>JavaScript numbers\<close>

text \<open>
  A JavaScript number is an IEEE-754 double. A finite one is kept by its value, a
  rational; the three other values are the infinities and NaN. There is a single zero
  (the sign of a zero is not modelled).
\<close>

datatype jsnum = Fin rat | PosInf | NegInf | NaN

definition inf_of_sign :: "bool \<Rightarrow> jsnum" where
  "inf_of_sign negative = (if negative then NegInf else PosInf)"

text \<open>
  The result of an arithmetic operation is the exact result rounded to the nearest
  double, a tie going to the even significand. A double has a significand of 53 bits
  and an exponent of at least \<open>-1022\<close>, so the doubles next to a number \<open>x\<close> with
  \<open>2^e \<le> |x| < 2^(e+1)\<close> are the multiples of \<open>2^(max e (-1022) - 52)\<close>. A result that
  rounds to \<open>2^1024\<close> or beyond is an infinity.
\<close>

definition pow2 :: "int \<Rightarrow> rat" where
  "pow2 k = 2 powi k"

definition round_half_even :: "rat \<Rightarrow> int" where
  "round_half_even y =
     (let f = \<lfloor>y\<rfloor>; d = y - of_int f
      in if d < 1 / 2 then f else if 1 / 2 < d then f + 1 else if even f then f else f + 1)"

definition subnormal_bits :: nat where
  "subnormal_bits = 1074"

text \<open>
  The exponent \<open>e\<close> with \<open>2^e \<le> |x| < 2^(e+1)\<close>, read off the bit length of \<open>|x|\<close> scaled
  to an integer; it is \<open>-1075\<close> for a number below the smallest double.
\<close>

definition binary_exponent :: "rat \<Rightarrow> int" where
  "binary_exponent x = bitlen \<lfloor>\<bar>x\<bar> * 2 ^ subnormal_bits\<rfloor> - int subnormal_bits - 1"

definition overflow_threshold :: rat where
  "overflow_threshold = 2 ^ 1024"

definition to_double :: "rat \<Rightarrow> jsnum" where
  "to_double x =
     (let e = max (binary_exponent x) (- 1022);
          q = pow2 (e - 52);
          y = of_int (round_half_even (x / q)) * q
      in if overflow_threshold \<le> \<bar>y\<bar> then inf_of_sign (x < 0) else Fin y)"

text \<open>The operator \<^verbatim>\<open>+\<close> on two numbers.\<close>

fun js_add :: "jsnum \<Rightarrow> jsnum \<Rightarrow> jsnum" where
  "js_add (Fin a) (Fin b) = to_double (a + b)"
| "js_add NaN _ = NaN"
| "js_add _ NaN = NaN"
| "js_add PosInf NegInf = NaN"
| "js_add NegInf PosInf = NaN"
| "js_add PosInf _ = PosInf"
| "js_add _ PosInf = PosInf"
| "js_add NegInf _ = NegInf"
| "js_add _ NegInf = NegInf"

text \<open>The operator \<^verbatim>\<open>*\<close> on two numbers: an infinity times zero is NaN.\<close>

fun js_mul :: "jsnum \<Rightarrow> jsnum \<Rightarrow> jsnum" where
  "js_mul (Fin a) (Fin b) = to_double (a * b)"
| "js_mul NaN _ = NaN"
| "js_mul _ NaN = NaN"
| "js_mul (Fin a) PosInf = (if a = 0 then NaN else inf_of_sign (a < 0))"
| "js_mul (Fin a) NegInf = (if a = 0 then NaN else inf_of_sign (0 < a))"
| "js_mul PosInf (Fin b) = (if b = 0 then NaN else inf_of_sign (b < 0))"
| "js_mul NegInf (Fin b) = (if b = 0 then NaN else inf_of_sign (0 < b))"
| "js_mul PosInf PosInf = PosInf"
| "js_mul NegInf NegInf = PosInf"
| "js_mul PosInf NegInf = NegInf"
| "js_mul NegInf PosInf = NegInf"

text \<open>
  The operator \<^verbatim>\<open>/\<close>: dividing by zero raises nothing in JavaScript, it gives NaN
  (for 0/0) or an infinity. The zero divisor is taken as the positive zero.
\<close>

fun js_div :: "jsnum \<Rightarrow> jsnum \<Rightarrow> jsnum" where
  "js_div (Fin a) (Fin b) =
     (if b = 0 then (if a = 0 then NaN else inf_of_sign (a < 0)) else to_double (a / b))"
| "js_div NaN _ = NaN"
| "js_div _ NaN = NaN"
| "js_div (Fin a) PosInf = Fin 0"
| "js_div (Fin a) NegInf = Fin 0"
| "js_div PosInf (Fin b) = inf_of_sign (b < 0)"
| "js_div NegInf (Fin b) = inf_of_sign (0 \<le> b)"
| "js_div PosInf PosInf = NaN"
| "js_div PosInf NegInf = NaN"
| "js_div NegInf PosInf = NaN"
| "js_div NegInf NegInf = NaN"

text \<open>The comparison \<^verbatim>\<open>x > y\<close>: false as soon as one side is NaN.\<close>

fun js_gt :: "jsnum \<Rightarrow> jsnum \<Rightarrow> bool" where
  "js_gt (Fin a) (Fin b) = (b < a)"
| "js_gt NaN _ = False"
| "js_gt _ NaN = False"
| "js_gt PosInf PosInf = False"
| "js_gt PosInf _ = True"
| "js_gt _ PosInf = False"
| "js_gt NegInf _ = False"
| "js_gt _ NegInf = True"

text \<open>
  \<^verbatim>\<open>Math.max(...xs)\<close>: the running maximum starts at minus infinity (so the call with
  no argument returns minus infinity), and a NaN argument makes the result NaN.
\<close>

fun Math_max_from :: "jsnum \<Rightarrow> jsnum list \<Rightarrow> jsnum" where
  "Math_max_from highest [] = highest"
| "Math_max_from highest (x # xs) =
     (if x = NaN then NaN
      else Math_max_from (if js_gt x highest then x else highest) xs)"

definition Math_max :: "jsnum list \<Rightarrow> jsnum" where
  "Math_max xs = Math_max_from NegInf xs"

text \<open>
  \<^verbatim>\<open>x.toFixed(2)\<close> returns a text. The text is kept by its structure: the name of a
  non-finite value, a decimal numeral with two fraction digits (its sign and its value
  in hundredths), or, for a magnitude of at least \<open>10^21\<close>, the shortest numeral that the
  conversion of a number to a string gives. The hundredths \<open>n\<close> are the integer for
  which \<open>n / 100 - x\<close> is closest to zero, the larger one of two.
\<close>

datatype fixed_text =
    TextNaN
  | TextInfinity bool
  | TextDecimal bool nat
  | TextShortest rat

definition toFixed2 :: "jsnum \<Rightarrow> fixed_text" where
  "toFixed2 x =
     (case x of
        NaN \<Rightarrow> TextNaN
      | PosInf \<Rightarrow> TextInfinity False
      | NegInf \<Rightarrow> TextInfinity True
      | Fin r \<Rightarrow>
          (let negative = (r < 0); m = \<bar>r\<bar> in
           if 10 ^ 21 \<le> m then TextShortest r
           else TextDecimal negative (nat \<lfloor>m * 100 + 1 / 2\<rfloor>)))"

text \<open>
  \<^verbatim>\<open>Number(text)\<close> on a text that \<^verbatim>\<open>toFixed\<close> produced: the double nearest to the
  value the decimal numeral denotes (\<^verbatim>\<open>"-0.00"\<close> denotes the zero); the shortest numeral
  of a double reads back as that double.
\<close>

definition Number :: "fixed_text \<Rightarrow> jsnum" where
  "Number t =
     (case t of
        TextNaN \<Rightarrow> NaN
      | TextInfinity negative \<Rightarrow> inf_of_sign negative
      | TextDecimal negative n \<Rightarrow>
          to_double (if negative then - (of_nat n / 100) else of_nat n / 100)
      | TextShortest r \<Rightarrow> Fin r)"

section \<open>The bulk run of \<^verbatim>\<open>processBulkImages\<close>\<close>

text \<open>
  The interface \<^verbatim>\<open>BulkPredictionResult\<close> of \<^verbatim>\<open>_layout.tsx\<close>. The type \<open>'n\<close> is that of
  its four means: a number in the record that a run builds, a number or \<^verbatim>\<open>null\<close> in a
  record of the log.
\<close>

record 'n BulkPredictionResult =
  glioma :: nat
  meningioma :: nat
  pituitary :: nat
  noTumor :: nat
  modelName :: string
  timestamp :: string
  gliomaAccuracy :: 'n
  meningiomaAccuracy :: 'n
  pituitaryAccuracy :: 'n
  noTumorAccuracy :: 'n
  isGrayscale :: bool

text \<open>
  The local object \<^verbatim>\<open>accuracies\<close>: one sequence of confidence samples per class.
\<close>

record Accuracies =
  glioma_samples :: "jsnum list"
  meningioma_samples :: "jsnum list"
  pituitary_samples :: "jsnum list"
  noTumor_samples :: "jsnum list"

text \<open>
  What the requests made for one asset produced. \<open>Threw msg\<close>: one of the awaited calls
  of the \<^verbatim>\<open>try\<close> block (reading the asset, posting it, decoding the body) rejected with
  that message. \<open>Responded ok d\<close>: the server answered, \<open>ok\<close> is \<^verbatim>\<open>fetchResponse.ok\<close>
  and \<open>d\<close> the decoded body. The body is untyped in the source; of it the loop reads the
  field \<^verbatim>\<open>class\<close> (compared with \<^verbatim>\<open>===\<close>, so anything but one of the four label strings
  matches no case) and spreads the field \<^verbatim>\<open>probability\<close>, which raises a TypeError when
  the field is missing or not iterable (\<open>None\<close>).
\<close>

record response_data =
  data_class :: string
  data_probability :: "jsnum list option"

datatype fetch_outcome = Threw string | Responded bool response_data

datatype js_exception = Rejected string | TypeError

datatype console_entry =
    ImageUploadError js_exception
  | BulkHistoryNotSaved
  | PredictionHistoryNotSaved
  | HistoryNotLoaded
  | HistoryNotRefreshed
  | HistoryNotDeleted
  | FailedToLoadHistory
  | FailedToResetHistory
  | FailedToSaveNote
  | PredictionHistoryCleared

text \<open>The state the loop works on: the two local objects and the console.\<close>

record bulk_run =
  results :: "jsnum BulkPredictionResult"
  accuracies :: Accuracies
  console :: "console_entry list"

text \<open>
  The body of the \<^verbatim>\<open>try\<close> block for one asset (lines 296 to 329): either an exception,
  or the state after the \<^verbatim>\<open>switch\<close>. The maximum is computed before the \<^verbatim>\<open>switch\<close>,
  and nothing can raise between an increment and its \<^verbatim>\<open>push\<close>.
\<close>

fun tryBody :: "bulk_run \<Rightarrow> fetch_outcome \<Rightarrow> js_exception + bulk_run" where
  "tryBody st (Threw msg) = Inl (Rejected msg)"
| "tryBody st (Responded ok d) =
     (if ok then
        (case data_probability d of
           None \<Rightarrow> Inl TypeError
         | Some probability \<Rightarrow>
             (let maxProbability = Math_max probability;
                  sample = js_mul maxProbability (Fin 100);
                  r = results st;
                  a = accuracies st
              in if data_class d = ''Glioma'' then
                   Inr (st\<lparr>results := r\<lparr>glioma := glioma r + 1\<rparr>,
                           accuracies := a\<lparr>glioma_samples := glioma_samples a @ [sample]\<rparr>\<rparr>)
                 else if data_class d = ''Meningioma'' then
                   Inr (st\<lparr>results := r\<lparr>meningioma := meningioma r + 1\<rparr>,
                           accuracies := a\<lparr>meningioma_samples := meningioma_samples a @ [sample]\<rparr>\<rparr>)
                 else if data_class d = ''Pituitary'' then
                   Inr (st\<lparr>results := r\<lparr>pituitary := pituitary r + 1\<rparr>,
                           accuracies := a\<lparr>pituitary_samples := pituitary_samples a @ [sample]\<rparr>\<rparr>)
                 else if data_class d = ''No Tumor'' then
                   Inr (st\<lparr>results := r\<lparr>noTumor := noTumor r + 1\<rparr>,
                           accuracies := a\<lparr>noTumor_samples := noTumor_samples a @ [sample]\<rparr>\<rparr>)
                 else Inr st))
      else Inr st)"

text \<open>One iteration: the \<^verbatim>\<open>catch\<close> clause writes the error to the console and the loop goes on.\<close>

definition processItem :: "bulk_run \<Rightarrow> fetch_outcome \<Rightarrow> bulk_run" where
  "processItem st outcome =
     (case tryBody st outcome of
        Inr st' \<Rightarrow> st'
      | Inl e \<Rightarrow> st\<lparr>console := console st @ [ImageUploadError e]\<rparr>)"

text \<open>The \<^verbatim>\<open>for ... of\<close> loop over the assets, in order.\<close>

fun processAssets :: "bulk_run \<Rightarrow> fetch_outcome list \<Rightarrow> bulk_run" where
  "processAssets st [] = st"
| "processAssets st (outcome # rest) = processAssets (processItem st outcome) rest"

text \<open>
  The expression that lines 335 to 346 repeat for each class: the mean of the samples
  with two decimals, and 0 for a class with no sample.
\<close>

definition meanAccuracy :: "jsnum list \<Rightarrow> jsnum" where
  "meanAccuracy samples =
     (if length samples > 0
      then Number (toFixed2 (js_div (foldl js_add (Fin 0) samples) (Fin (of_nat (length samples)))))
      else Fin 0)"

text \<open>The objects \<^verbatim>\<open>results\<close> and \<^verbatim>\<open>accuracies\<close> as lines 272 to 291 create them.\<close>

definition initialResults :: "string \<Rightarrow> string \<Rightarrow> bool \<Rightarrow> jsnum BulkPredictionResult" where
  "initialResults model now grayscale =
     \<lparr>glioma = 0, meningioma = 0, pituitary = 0, noTumor = 0,
      modelName = model, timestamp = now,
      gliomaAccuracy = Fin 0, meningiomaAccuracy = Fin 0,
      pituitaryAccuracy = Fin 0, noTumorAccuracy = Fin 0,
      isGrayscale = grayscale\<rparr>"

definition initialAccuracies :: Accuracies where
  "initialAccuracies =
     \<lparr>glioma_samples = [], meningioma_samples = [], pituitary_samples = [], noTumor_samples = []\<rparr>"

text \<open>
  Lines 272 to 346: the record of a run over the assets, and the console lines it wrote.
  \<open>model\<close>, \<open>now\<close> and \<open>grayscale\<close> are the model name, the clock and the grayscale switch
  at the start of the run.
\<close>

definition runLoop :: "string \<Rightarrow> string \<Rightarrow> bool \<Rightarrow> console_entry list \<Rightarrow> fetch_outcome list \<Rightarrow> bulk_run" where
  "runLoop model now grayscale cons assets =
     processAssets \<lparr>results = initialResults model now grayscale,
                    accuracies = initialAccuracies, console = cons\<rparr> assets"

definition withMeans :: "bulk_run \<Rightarrow> jsnum BulkPredictionResult" where
  "withMeans st =
     (results st)\<lparr>gliomaAccuracy := meanAccuracy (glioma_samples (accuracies st)),
                  meningiomaAccuracy := meanAccuracy (meningioma_samples (accuracies st)),
                  pituitaryAccuracy := meanAccuracy (pituitary_samples (accuracies st)),
                  noTumorAccuracy := meanAccuracy (noTumor_samples (accuracies st))\<rparr>"

definition bulkResult :: "string \<Rightarrow> string \<Rightarrow> bool \<Rightarrow> fetch_outcome list \<Rightarrow> jsnum BulkPredictionResult" where
  "bulkResult model now grayscale assets = withMeans (runLoop model now grayscale [] assets)"


section \<open>Vocabulary of the specification for a bulk run\<close>

text \<open>The constant \<^verbatim>\<open>CLASS_LABELS\<close> of both source files.\<close>

definition CLASS_LABELS :: "string list" where
  "CLASS_LABELS = [''Glioma'', ''No Tumor'', ''Meningioma'', ''Pituitary'']"

text \<open>
  An item fails when its requests raise (the network, the decoding of the body, or the
  spread of a missing probability field) or when the server's answer is not a success.
\<close>

fun item_failed :: "fetch_outcome \<Rightarrow> bool" where
  "item_failed (Threw msg) = True"
| "item_failed (Responded ok d) = (if ok then data_probability d = None else True)"

text \<open>The class string and the confidence sample of an item that did not fail.\<close>

fun label_of :: "fetch_outcome \<Rightarrow> string option" where
  "label_of (Threw msg) = None"
| "label_of (Responded ok d) =
     (if ok then (case data_probability d of None \<Rightarrow> None | Some ps \<Rightarrow> Some (data_class d))
      else None)"

fun sample_of :: "fetch_outcome \<Rightarrow> jsnum" where
  "sample_of (Threw msg) = NaN"
| "sample_of (Responded ok d) =
     (case data_probability d of None \<Rightarrow> NaN | Some ps \<Rightarrow> js_mul (Math_max ps) (Fin 100))"

definition samples_for :: "string \<Rightarrow> fetch_outcome list \<Rightarrow> jsnum list" where
  "samples_for label assets =
     map sample_of (filter (\<lambda>outcome. label_of outcome = Some label) assets)"

definition count_for :: "string \<Rightarrow> fetch_outcome list \<Rightarrow> nat" where
  "count_for label assets = length (filter (\<lambda>outcome. label_of outcome = Some label) assets)"

definition has_fixed_label :: "fetch_outcome \<Rightarrow> bool" where
  "has_fixed_label outcome = (label_of outcome \<in> Some ` set CLASS_LABELS)"

text \<open>The sum of the four counts of a record, and the number \<open>F\<close> of failed items of a batch.\<close>

definition classifiedTotal :: "jsnum BulkPredictionResult \<Rightarrow> nat" where
  "classifiedTotal r = glioma r + meningioma r + pituitary r + noTumor r"

definition failureCount :: "fetch_outcome list \<Rightarrow> nat" where
  "failureCount assets = length (filter item_failed assets)"

text \<open>
  Example data: a successful answer with the given class and leading probability, and
  the batch of the specification's scenario (items 1 and 3 are Glioma with 0.90 and
  0.70, item 2 fails in transport).
\<close>

definition example_ok :: "string \<Rightarrow> rat \<Rightarrow> fetch_outcome" where
  "example_ok label p =
     Responded True \<lparr>data_class = label,
       data_probability = Some [Fin p, Fin ((1 - p) / 3), Fin ((1 - p) / 3), Fin ((1 - p) / 3)]\<rparr>"

definition scenario_batch :: "fetch_outcome list" where
  "scenario_batch =
     [example_ok ''Glioma'' (9 / 10), Threw ''Network request failed'', example_ok ''Glioma'' (7 / 10)]"

text \<open>The state in which the loop starts, for the examples.\<close>

definition empty_run :: bulk_run where
  "empty_run = \<lparr>results = initialResults ''m'' ''t'' False, accuracies = initialAccuracies, console = []\<rparr>"

text \<open>
  The hypotheses of the claim on the mean: the item carries a probability vector that is
  not empty and whose entries are finite numbers between 0 and 1 (the specification's
  classification result has four of them).
\<close>

fun unit_interval :: "jsnum \<Rightarrow> bool" where
  "unit_interval (Fin p) = (0 \<le> p \<and> p \<le> 1)"
| "unit_interval PosInf = False"
| "unit_interval NegInf = False"
| "unit_interval NaN = False"

definition valid_probabilities :: "jsnum list \<Rightarrow> bool" where
  "valid_probabilities ps = (ps \<noteq> [] \<and> list_all unit_interval ps)"

fun valid_outcome :: "fetch_outcome \<Rightarrow> bool" where
  "valid_outcome (Threw msg) = False"
| "valid_outcome (Responded ok d) =
     (case data_probability d of None \<Rightarrow> False | Some ps \<Rightarrow> valid_probabilities ps)"

text \<open>
  The arithmetic of the specification, on exact numbers: the largest probability of an
  item, its confidence sample, the samples of a class, their arithmetic mean, the
  rounding to the nearest hundredth (a tie goes up), and the statement that a recorded
  mean is exactly that rounded mean.
\<close>

fun value_of :: "jsnum \<Rightarrow> rat" where
  "value_of (Fin r) = r"
| "value_of PosInf = 0"
| "value_of NegInf = 0"
| "value_of NaN = 0"

definition max_probability :: "jsnum list \<Rightarrow> rat" where
  "max_probability ps = Max (value_of ` set ps)"

fun confidence_sample :: "fetch_outcome \<Rightarrow> rat" where
  "confidence_sample (Threw msg) = 0"
| "confidence_sample (Responded ok d) =
     (case data_probability d of None \<Rightarrow> 0 | Some ps \<Rightarrow> max_probability ps * 100)"

definition confidence_samples :: "string \<Rightarrow> fetch_outcome list \<Rightarrow> rat list" where
  "confidence_samples label assets =
     map confidence_sample (filter (\<lambda>outcome. label_of outcome = Some label) assets)"

definition arithmetic_mean :: "rat list \<Rightarrow> rat" where
  "arithmetic_mean xs = sum_list xs / of_nat (length xs)"

definition round_2_decimals :: "rat \<Rightarrow> rat" where
  "round_2_decimals x = of_int (round (x * 100)) / 100"

definition is_rounded_mean :: "jsnum \<Rightarrow> rat list \<Rightarrow> bool" where
  "is_rounded_mean acc xs =
     (case acc of
        Fin r \<Rightarrow> r = round_2_decimals (arithmetic_mean xs)
                 \<and> \<bar>r - arithmetic_mean xs\<bar> \<le> 1 / 200 \<and> 0 \<le> r \<and> r \<le> 100
      | PosInf \<Rightarrow> False | NegInf \<Rightarrow> False | NaN \<Rightarrow> False)"

text \<open>
  What holds of the recorded mean: it is a double between 0 and 100 whose distance from
  the exact arithmetic mean is at most half a hundredth plus the rounding of four
  operations on doubles below \<open>2^16\<close> (the product, the sum, the quotient and the
  reading of the decimal text), each at most \<open>2^-38\<close>.
\<close>

definition double_error :: rat where
  "double_error = 1 / 2 ^ 38"

definition is_mean_within_rounding :: "jsnum \<Rightarrow> rat list \<Rightarrow> bool" where
  "is_mean_within_rounding acc xs =
     (case acc of
        Fin r \<Rightarrow> 0 \<le> r \<and> r \<le> 100 \<and> \<bar>r - arithmetic_mean xs\<bar> \<le> 1 / 200 + 4 * double_error
      | PosInf \<Rightarrow> False | NegInf \<Rightarrow> False | NaN \<Rightarrow> False)"

text \<open>
  A batch of two Glioma answers whose largest probabilities are the doubles nearest to
  0.8928 and 0.5463.
\<close>

definition rounding_batch :: "fetch_outcome list" where
  "rounding_batch =
     [Responded True \<lparr>data_class = ''Glioma'', data_probability =
        Some [Fin (4020813747316379 / 4503599627370496), Fin (1 / 16), Fin (1 / 32), Fin (1 / 64)]\<rparr>,
      Responded True \<lparr>data_class = ''Glioma'', data_probability =
        Some [Fin (1230158238216251 / 2251799813685248), Fin (1 / 4), Fin (1 / 8), Fin (1 / 16)]\<rparr>]"

section \<open>The device storage and the two bounded logs\<close>

text \<open>
  The interface \<^verbatim>\<open>Prediction\<close> (the fields \<^verbatim>\<open>class\<close>, \<^verbatim>\<open>modelName\<close>, \<^verbatim>\<open>note\<close> and
  \<^verbatim>\<open>timestamp\<close> carry a prefix here). The probability field is whatever the server sent:
  \<open>None\<close> stands for a missing field.
\<close>

record Prediction =
  pred_class :: string
  probability :: "jsnum list option"
  imageUri :: string
  pred_modelName :: string
  pred_note :: string
  pred_timestamp :: string
  preprocessFunction :: "string option"

text \<open>
  An entry of the bulk log. The log holds the records of runs, whose means are numbers,
  and records decoded from the stored text, in which a mean can be \<^verbatim>\<open>null\<close> (\<open>None\<close>):
  \<open>as_entry\<close> reads the record of a run as an entry.
\<close>

type_synonym bulk_entry = "jsnum option BulkPredictionResult"

definition as_entry :: "jsnum BulkPredictionResult \<Rightarrow> bulk_entry" where
  "as_entry r =
     \<lparr>glioma = glioma r, meningioma = meningioma r, pituitary = pituitary r, noTumor = noTumor r,
      modelName = modelName r, timestamp = timestamp r,
      gliomaAccuracy = Some (gliomaAccuracy r), meningiomaAccuracy = Some (meningiomaAccuracy r),
      pituitaryAccuracy = Some (pituitaryAccuracy r), noTumorAccuracy = Some (noTumorAccuracy r),
      isGrayscale = isGrayscale r\<rparr>"

text \<open>
  What \<^verbatim>\<open>JSON.parse\<close> returns for the text that \<^verbatim>\<open>JSON.stringify\<close> writes. A finite number
  is written by the shortest numeral that reads back as the same double; \<^verbatim>\<open>NaN\<close> and the
  two infinities are written as \<^verbatim>\<open>null\<close>, and \<^verbatim>\<open>null\<close> as itself. The counts, the strings
  and the boolean of a record are read back as they were.
\<close>

definition JSON_number :: "jsnum option \<Rightarrow> jsnum option" where
  "JSON_number v = (case v of Some (Fin r) \<Rightarrow> Some (Fin r) | _ \<Rightarrow> None)"

definition JSON_roundtrip :: "bulk_entry \<Rightarrow> bulk_entry" where
  "JSON_roundtrip r =
     r\<lparr>gliomaAccuracy := JSON_number (gliomaAccuracy r),
       meningiomaAccuracy := JSON_number (meningiomaAccuracy r),
       pituitaryAccuracy := JSON_number (pituitaryAccuracy r),
       noTumorAccuracy := JSON_number (noTumorAccuracy r)\<rparr>"

text \<open>
  The key-value store, by its two keys \<^verbatim>\<open>predictionHistory\<close> and
  \<^verbatim>\<open>bulkPredictionHistory\<close>; \<open>None\<close> is the \<^verbatim>\<open>null\<close> that \<^verbatim>\<open>getItem\<close> returns for a
  key never written. A key that was written holds a JSON text, kept here as the value
  that \<^verbatim>\<open>JSON.parse\<close> returns for it, so a decoding never fails. For the bulk log that
  value is the one written with every record passed through \<open>JSON_roundtrip\<close>. A
  prediction is made of strings and of the fields of a decoded JSON body; its text is
  taken to decode to the prediction itself.
\<close>

record store =
  stored_predictionHistory :: "Prediction list option"
  stored_bulkPredictionHistory :: "bulk_entry list option"

text \<open>
  How the storage answers during one operation: each kind of call may reject. A
  rejected call raises in the caller, whose \<^verbatim>\<open>catch\<close> clause handles it.
\<close>

record io =
  getItem_fails :: bool
  setItem_fails :: bool
  removeItem_fails :: bool

definition storage_error :: js_exception where
  "storage_error = Rejected ''AsyncStorage''"

definition getItem_predictionHistory :: "io \<Rightarrow> store \<Rightarrow> js_exception + Prediction list option" where
  "getItem_predictionHistory env s =
     (if getItem_fails env then Inl storage_error else Inr (stored_predictionHistory s))"

definition setItem_predictionHistory :: "io \<Rightarrow> Prediction list \<Rightarrow> store \<Rightarrow> js_exception + store" where
  "setItem_predictionHistory env v s =
     (if setItem_fails env then Inl storage_error
      else Inr (s\<lparr>stored_predictionHistory := Some v\<rparr>))"

definition removeItem_predictionHistory :: "io \<Rightarrow> store \<Rightarrow> js_exception + store" where
  "removeItem_predictionHistory env s =
     (if removeItem_fails env then Inl storage_error
      else Inr (s\<lparr>stored_predictionHistory := None\<rparr>))"

definition getItem_bulkPredictionHistory :: "io \<Rightarrow> store \<Rightarrow> js_exception + bulk_entry list option" where
  "getItem_bulkPredictionHistory env s =
     (if getItem_fails env then Inl storage_error else Inr (stored_bulkPredictionHistory s))"

text \<open>
  The call \<^verbatim>\<open>AsyncStorage.setItem('bulkPredictionHistory', JSON.stringify(v))\<close>: the store
  then holds the text of \<open>v\<close>.
\<close>

definition setItem_bulkPredictionHistory :: "io \<Rightarrow> bulk_entry list \<Rightarrow> store \<Rightarrow> js_exception + store" where
  "setItem_bulkPredictionHistory env v s =
     (if setItem_fails env then Inl storage_error
      else Inr (s\<lparr>stored_bulkPredictionHistory := Some (map JSON_roundtrip v)\<rparr>))"

text \<open>The expression \<^verbatim>\<open>storedHistory ? JSON.parse(storedHistory) : []\<close>.\<close>

definition parsed_or_empty :: "'a list option \<Rightarrow> 'a list" where
  "parsed_or_empty storedHistory = (case storedHistory of Some parsed \<Rightarrow> parsed | None \<Rightarrow> [])"

text \<open>The two statements \<^verbatim>\<open>history.unshift(x); history = history.slice(0, cap)\<close>.\<close>

definition prependCapped :: "nat \<Rightarrow> 'a \<Rightarrow> 'a list \<Rightarrow> 'a list" where
  "prependCapped cap x xs = take cap (x # xs)"

text \<open>
  The state of the component of \<^verbatim>\<open>_layout.tsx\<close> that the history operations read and
  write (the state variable \<^verbatim>\<open>modelName\<close> is \<open>current_modelName\<close>), with the console,
  the alerts shown and the storage. The selected images are kept by what the requests
  for each of them will produce.
\<close>

datatype alert = SelectImagesFirst | AlertHistoryNotRefreshed | AlertHistoryNotDeleted

record layout_state =
  current_modelName :: string
  isGrayscaleEnabled :: bool
  bulkImages :: "fetch_outcome list option"
  bulkPrediction :: "jsnum BulkPredictionResult option"
  bulkPredictionHistory :: "bulk_entry list"
  bulkLoading :: bool
  estimatedTime :: nat
  console_log :: "console_entry list"
  alerts :: "alert list"
  storage :: store


text \<open>
  \<^verbatim>\<open>processBulkImages\<close> as a whole: the guard, the loop, the means, and the commit of the
  record to the stored log of at most 50 entries. The in-memory log is set after the
  write succeeded, to the array that was written: its first entry is the record of the
  run itself, not what the stored text decodes to.
\<close>

definition processBulkImages :: "io \<Rightarrow> string \<Rightarrow> layout_state \<Rightarrow> layout_state" where
  "processBulkImages env now st =
     (case bulkImages st of
        None \<Rightarrow> st\<lparr>alerts := alerts st @ [SelectImagesFirst]\<rparr>
      | Some assets \<Rightarrow>
          (let run = runLoop (current_modelName st) now (isGrayscaleEnabled st) (console_log st) assets;
               record_of_run = withMeans run;
               st1 = st\<lparr>bulkPrediction := Some record_of_run, bulkLoading := False,
                        estimatedTime := 0, console_log := console run\<rparr>
           in case getItem_bulkPredictionHistory env (storage st1) of
                Inl e \<Rightarrow> st1\<lparr>console_log := console_log st1 @ [BulkHistoryNotSaved]\<rparr>
              | Inr storedHistory \<Rightarrow>
                  (let history = prependCapped 50 (as_entry record_of_run) (parsed_or_empty storedHistory) in
                   case setItem_bulkPredictionHistory env history (storage st1) of
                     Inl e \<Rightarrow> st1\<lparr>console_log := console_log st1 @ [BulkHistoryNotSaved]\<rparr>
                   | Inr s \<Rightarrow> st1\<lparr>storage := s, bulkPredictionHistory := history\<rparr>)))"

text \<open>The loader of the mount effect, \<^verbatim>\<open>refreshBulkPredictionHistory\<close> and \<^verbatim>\<open>deleteHistoryItem\<close>.\<close>

definition loadBulkPredictionHistory :: "io \<Rightarrow> layout_state \<Rightarrow> layout_state" where
  "loadBulkPredictionHistory env st =
     (case getItem_bulkPredictionHistory env (storage st) of
        Inl e \<Rightarrow> st\<lparr>console_log := console_log st @ [HistoryNotLoaded]\<rparr>
      | Inr storedHistory \<Rightarrow>
          (case storedHistory of
             Some parsed \<Rightarrow> st\<lparr>bulkPredictionHistory := parsed\<rparr>
           | None \<Rightarrow> st))"

definition refreshBulkPredictionHistory :: "io \<Rightarrow> layout_state \<Rightarrow> layout_state" where
  "refreshBulkPredictionHistory env st =
     (case getItem_bulkPredictionHistory env (storage st) of
        Inl e \<Rightarrow> st\<lparr>console_log := console_log st @ [HistoryNotRefreshed],
                    alerts := alerts st @ [AlertHistoryNotRefreshed]\<rparr>
      | Inr storedHistory \<Rightarrow>
          (case storedHistory of
             Some parsed \<Rightarrow> st\<lparr>bulkPredictionHistory := parsed\<rparr>
           | None \<Rightarrow> st\<lparr>bulkPredictionHistory := []\<rparr>))"

definition deleteHistoryItem :: "io \<Rightarrow> string \<Rightarrow> layout_state \<Rightarrow> layout_state" where
  "deleteHistoryItem env ts st =
     (let updatedHistory = filter (\<lambda>item. timestamp item \<noteq> ts) (bulkPredictionHistory st);
          st1 = st\<lparr>bulkPredictionHistory := updatedHistory\<rparr>
      in case setItem_bulkPredictionHistory env updatedHistory (storage st1) of
           Inl e \<Rightarrow> st1\<lparr>console_log := console_log st1 @ [HistoryNotDeleted],
                        alerts := alerts st1 @ [AlertHistoryNotDeleted]\<rparr>
         | Inr s \<Rightarrow> st1\<lparr>storage := s\<rparr>)"

text \<open>The component of \<^verbatim>\<open>history.tsx\<close>: its state, \<^verbatim>\<open>loadHistory\<close> and \<^verbatim>\<open>resetHistory\<close>.\<close>

record history_state =
  history :: "Prediction list"
  isLoading :: bool
  history_console :: "console_entry list"
  history_storage :: store

definition loadHistory :: "io \<Rightarrow> history_state \<Rightarrow> history_state" where
  "loadHistory env st =
     (let st1 =
        (case getItem_predictionHistory env (history_storage st) of
           Inl e \<Rightarrow> st\<lparr>history_console := history_console st @ [FailedToLoadHistory]\<rparr>
         | Inr storedHistory \<Rightarrow>
             (case storedHistory of
                Some parsedHistory \<Rightarrow> st\<lparr>history := take 10 parsedHistory\<rparr>
              | None \<Rightarrow> st))
      in st1\<lparr>isLoading := False\<rparr>)"

definition resetHistory :: "io \<Rightarrow> history_state \<Rightarrow> history_state" where
  "resetHistory env st =
     (case removeItem_predictionHistory env (history_storage st) of
        Inl e \<Rightarrow> st\<lparr>history_console := history_console st @ [FailedToResetHistory]\<rparr>
      | Inr s \<Rightarrow> st\<lparr>history_storage := s, history := [],
                    history_console := history_console st @ [PredictionHistoryCleared]\<rparr>)"

text \<open>
  \<^verbatim>\<open>updateNote\<close>: the assignment to \<^verbatim>\<open>updatedHistory[index].note\<close> raises a TypeError when
  the index has no entry, before anything is set; the exception leaves the function.
  Otherwise the state is set and the whole log is written, a failure of the write being
  caught and logged.
\<close>

definition updateNote :: "io \<Rightarrow> nat \<Rightarrow> string \<Rightarrow> history_state \<Rightarrow> js_exception + history_state" where
  "updateNote env index newNote st =
     (let updatedHistory = history st in
      if index < length updatedHistory then
        (let updatedHistory = updatedHistory[index := (updatedHistory ! index)\<lparr>pred_note := newNote\<rparr>];
             st1 = st\<lparr>history := updatedHistory\<rparr>
         in case setItem_predictionHistory env updatedHistory (history_storage st1) of
              Inl e \<Rightarrow> Inr (st1\<lparr>history_console := history_console st1 @ [FailedToSaveNote]\<rparr>)
            | Inr s \<Rightarrow> Inr (st1\<lparr>history_storage := s\<rparr>))
      else Inl TypeError)"

text \<open>What an operation of the history view leaves behind: the store and the log in memory.\<close>

definition layout_view :: "layout_state \<Rightarrow> store \<times> bulk_entry list" where
  "layout_view st = (storage st, bulkPredictionHistory st)"

definition history_view :: "history_state \<Rightarrow> store \<times> Prediction list" where
  "history_view st = (history_storage st, history st)"

text \<open>Example data for the logs.\<close>

definition no_faults :: io where
  "no_faults = \<lparr>getItem_fails = False, setItem_fails = False, removeItem_fails = False\<rparr>"

definition write_fault :: io where
  "write_fault = \<lparr>getItem_fails = False, setItem_fails = True, removeItem_fails = False\<rparr>"

definition example_record :: "string \<Rightarrow> bulk_entry" where
  "example_record ts = as_entry (initialResults ''m'' ts False)"

definition example_prediction :: "string \<Rightarrow> Prediction" where
  "example_prediction ts =
     \<lparr>pred_class = ''Glioma'', probability = Some [Fin (9 / 10), Fin 0, Fin (1 / 10), Fin 0],
      imageUri = ''file:///a.jpg'', pred_modelName = ''m'', pred_note = [],
      pred_timestamp = ts, preprocessFunction = None\<rparr>"

definition example_layout :: "bulk_entry list \<Rightarrow> layout_state" where
  "example_layout entries =
     \<lparr>current_modelName = ''m'', isGrayscaleEnabled = False, bulkImages = Some scenario_batch,
      bulkPrediction = None, bulkPredictionHistory = entries, bulkLoading = False,
      estimatedTime = 6, console_log = [], alerts = [],
      storage = \<lparr>stored_predictionHistory = None, stored_bulkPredictionHistory = Some entries\<rparr>\<rparr>"

definition example_history :: "Prediction list \<Rightarrow> history_state" where
  "example_history entries =
     \<lparr>history = entries, isLoading = True, history_console = [],
      history_storage = \<lparr>stored_predictionHistory = Some entries, stored_bulkPredictionHistory = None\<rparr>\<rparr>"

definition ten_predictions :: "Prediction list" where
  "ten_predictions = map example_prediction
     [''t0'', ''t1'', ''t2'', ''t3'', ''t4'', ''t5'', ''t6'', ''t7'', ''t8'', ''t9'']"


text \<open>
  The state after a delete whose write the storage rejected: the log in memory has lost
  the record \<open>tB\<close> that the store still holds.
\<close>

definition stale_layout :: layout_state where
  "stale_layout =
     deleteHistoryItem write_fault ''tB'' (example_layout [example_record ''tB'', example_record ''tA''])"

section \<open>Formatting a probability vector\<close>

text \<open>
  Strings are sequences of bytes; a character outside ASCII is written by its UTF-8
  bytes. The text of \<^verbatim>\<open>toFixed(2)\<close> is printed digit by digit. For a magnitude of at
  least \<open>10^21\<close> the runtime prints the shortest numeral that reads back as the same
  double, which exact numbers do not determine: that conversion is the parameter
  \<open>shortest\<close>.
\<close>

definition digit_char :: "nat \<Rightarrow> char" where
  "digit_char d = ''0123456789'' ! d"

fun decimal :: "nat \<Rightarrow> string" where
  "decimal n = (if n < 10 then [digit_char n] else decimal (n div 10) @ [digit_char (n mod 10)])"

fun text_of :: "(rat \<Rightarrow> string) \<Rightarrow> fixed_text \<Rightarrow> string" where
  "text_of shortest TextNaN = ''NaN''"
| "text_of shortest (TextInfinity negative) = (if negative then ''-Infinity'' else ''Infinity'')"
| "text_of shortest (TextDecimal negative n) =
     (if negative then ''-'' else []) @ decimal (n div 100) @ ''.''
       @ [digit_char (n mod 100 div 10), digit_char (n mod 10)]"
| "text_of shortest (TextShortest r) = shortest r"

text \<open>\<^verbatim>\<open>lines.join(sep)\<close> and the line feed.\<close>

fun join :: "string \<Rightarrow> string list \<Rightarrow> string" where
  "join sep [] = []"
| "join sep [x] = x"
| "join sep (x # y # ys) = x @ sep @ join sep (y # ys)"

definition newline :: string where
  "newline = [CHR 0x0A]"

text \<open>
  Reading \<^verbatim>\<open>v.length\<close> and \<^verbatim>\<open>v[i]\<close>: both raise a TypeError on \<^verbatim>\<open>undefined\<close> or
  \<^verbatim>\<open>null\<close> (\<open>None\<close>); an index past the end of an array raises nothing and gives
  \<^verbatim>\<open>undefined\<close> (the inner \<open>None\<close>), which arithmetic turns into NaN.
\<close>

definition js_length :: "'a list option \<Rightarrow> js_exception + nat" where
  "js_length v = (case v of None \<Rightarrow> Inl TypeError | Some xs \<Rightarrow> Inr (length xs))"

definition js_get :: "'a list option \<Rightarrow> nat \<Rightarrow> js_exception + 'a option" where
  "js_get v i =
     (case v of
        None \<Rightarrow> Inl TypeError
      | Some xs \<Rightarrow> Inr (if i < length xs then Some (xs ! i) else None))"

definition to_number :: "jsnum option \<Rightarrow> jsnum" where
  "to_number v = (case v of None \<Rightarrow> NaN | Some x \<Rightarrow> x)"

text \<open>\<^verbatim>\<open>xs.map(f)\<close> for a callback that may raise, and the pairs of element and index it visits.\<close>

fun map_result :: "('a \<Rightarrow> js_exception + 'b) \<Rightarrow> 'a list \<Rightarrow> js_exception + 'b list" where
  "map_result f [] = Inr []"
| "map_result f (x # xs) =
     (case f x of
        Inl e \<Rightarrow> Inl e
      | Inr y \<Rightarrow> (case map_result f xs of Inl e \<Rightarrow> Inl e | Inr ys \<Rightarrow> Inr (y # ys)))"

definition indexed :: "'a list \<Rightarrow> ('a \<times> nat) list" where
  "indexed xs = zip xs [0..<length xs]"

text \<open>
  The guard \<^verbatim>\<open>!probabilities || probabilities.length !== CLASS_LABELS.length\<close> of the
  three functions: the length is read only when the first operand is false.
\<close>

definition malformed :: "jsnum list option \<Rightarrow> js_exception + bool" where
  "malformed probabilities =
     (if probabilities = None then Inr True
      else (case js_length probabilities of
              Inl e \<Rightarrow> Inl e
            | Inr n \<Rightarrow> Inr (n \<noteq> length CLASS_LABELS)))"

definition layout_fallback :: string where
  "layout_fallback =
     ''Olas'' @ [CHR 0xC4, CHR 0xB1] @ ''l'' @ [CHR 0xC4, CHR 0xB1] @ ''klar hesaplanamad''
       @ [CHR 0xC4, CHR 0xB1] @ ''.''"

definition history_fallback :: string where
  "history_fallback = ''Probabilities could not be calculated.''"

text \<open>The text \<^verbatim>\<open>(probabilities[index] * 100).toFixed(2)\<close>.\<close>

definition percentage :: "(rat \<Rightarrow> string) \<Rightarrow> jsnum option \<Rightarrow> string" where
  "percentage shortest v = text_of shortest (toFixed2 (js_mul (to_number v) (Fin 100)))"

text \<open>\<^verbatim>\<open>formatProbabilities\<close> of \<^verbatim>\<open>_layout.tsx\<close> and of \<^verbatim>\<open>history.tsx\<close>.\<close>

definition formatProbabilities :: "(rat \<Rightarrow> string) \<Rightarrow> jsnum list option \<Rightarrow> js_exception + string" where
  "formatProbabilities shortest probabilities =
     (case malformed probabilities of
        Inl e \<Rightarrow> Inl e
      | Inr bad \<Rightarrow>
          if bad then Inr layout_fallback
          else (case map_result
                       (\<lambda>(label, index).
                          case js_get probabilities index of
                            Inl e \<Rightarrow> Inl e
                          | Inr v \<Rightarrow> Inr (label @ '': %'' @ percentage shortest v))
                       (indexed CLASS_LABELS) of
                  Inl e \<Rightarrow> Inl e
                | Inr lines \<Rightarrow> Inr (join newline lines)))"

definition history_formatProbabilities :: "(rat \<Rightarrow> string) \<Rightarrow> jsnum list option \<Rightarrow> js_exception + string" where
  "history_formatProbabilities shortest probabilities =
     (case malformed probabilities of
        Inl e \<Rightarrow> Inl e
      | Inr bad \<Rightarrow>
          if bad then Inr history_fallback
          else (case map_result
                       (\<lambda>(label, index).
                          case js_get probabilities index of
                            Inl e \<Rightarrow> Inl e
                          | Inr v \<Rightarrow> Inr (label @ '': '' @ percentage shortest v @ ''%''))
                       (indexed CLASS_LABELS) of
                  Inl e \<Rightarrow> Inl e
                | Inr lines \<Rightarrow> Inr (join newline lines)))"

text \<open>
  \<^verbatim>\<open>getHighestProbabilityClass\<close>: the \<^verbatim>\<open>reduce\<close> keeps the index of the first largest
  entry, starting from index 0; the result is the label at that index, or \<^verbatim>\<open>undefined\<close>
  (\<open>None\<close>) past the end of the labels.
\<close>

definition number_at :: "jsnum list \<Rightarrow> nat \<Rightarrow> jsnum" where
  "number_at arr i = to_number (if i < length arr then Some (arr ! i) else None)"

definition getHighestProbabilityClass :: "jsnum list option \<Rightarrow> js_exception + string option" where
  "getHighestProbabilityClass probabilities =
     (case malformed probabilities of
        Inl e \<Rightarrow> Inl e
      | Inr bad \<Rightarrow>
          if bad then Inr (Some ''Bilinmeyen'')
          else (case probabilities of
                  None \<Rightarrow> Inl TypeError
                | Some arr \<Rightarrow>
                    (let maxIndex = foldl (\<lambda>maxIndex index.
                                      if js_gt (number_at arr index) (number_at arr maxIndex)
                                      then index else maxIndex)
                                    0 [0..<length arr]
                     in Inr (if maxIndex < length CLASS_LABELS then Some (CLASS_LABELS ! maxIndex)
                             else None))))"

definition example_probabilities :: "jsnum list" where
  "example_probabilities = [Fin (9 / 10), Fin (1 / 30), Fin (1 / 30), Fin (1 / 200)]"

definition example_shortest :: "rat \<Rightarrow> string" where
  "example_shortest r = ''1e+21''"


section \<open>Rounding to a double\<close>

lemma pow2_pos: "0 < pow2 k"
  by (simp add: pow2_def power_int_def)

lemma pow2_add: "pow2 (a + b) = pow2 a * pow2 b"
  by (simp add: pow2_def power_int_add)

lemma pow2_nat: "pow2 (int n) = 2 ^ n"
  by (simp add: pow2_def)

lemma pow2_mono: "a \<le> b \<Longrightarrow> pow2 a \<le> pow2 b"
  by (simp add: pow2_def power_int_increasing)

lemma pow2_neg: "k \<le> 0 \<Longrightarrow> pow2 k = 1 / 2 ^ nat (- k)"
  by (auto simp: pow2_def power_int_def inverse_eq_divide power_one_over)

lemma round_half_even_bounds:
  "of_int (round_half_even y) \<le> y + 1 / 2 \<and> y - 1 / 2 \<le> of_int (round_half_even y)"
proof -
  have "of_int \<lfloor>y\<rfloor> \<le> y" "y < of_int \<lfloor>y\<rfloor> + 1"
    by linarith+
  then show ?thesis
    unfolding round_half_even_def Let_def by (auto; linarith)
qed

lemma round_half_even_error: "\<bar>of_int (round_half_even y) - y\<bar> \<le> 1 / 2"
  using round_half_even_bounds [of y] by linarith

lemma round_half_even_of_int: "round_half_even (of_int k) = k"
  by (simp add: round_half_even_def)

lemma round_half_even_le_int:
  assumes "y \<le> of_int k"
  shows "round_half_even y \<le> k"
proof (cases "y = of_int k")
  case True
  then show ?thesis by (simp add: round_half_even_of_int)
next
  case False
  with assms have "y < of_int k" by simp
  then have "\<lfloor>y\<rfloor> < k"
    by (simp add: floor_less_iff)
  then show ?thesis
    by (simp add: round_half_even_def Let_def)
qed

lemma round_half_even_ge_int:
  assumes "of_int k \<le> y"
  shows "k \<le> round_half_even y"
proof -
  from assms have "k \<le> \<lfloor>y\<rfloor>"
    by (simp add: le_floor_iff)
  then show ?thesis
    by (simp add: round_half_even_def Let_def)
qed

lemma floor_less_power:
  fixes z :: rat
  assumes "0 \<le> z" and "z < 2 ^ n"
  shows "\<lfloor>z\<rfloor> < 2 ^ n"
  using assms by (simp add: floor_less_iff)

lemma power_le_floor:
  fixes z :: rat
  assumes "2 ^ n \<le> z"
  shows "2 ^ n \<le> \<lfloor>z\<rfloor>"
proof -
  have "(of_int (2 ^ n) :: rat) \<le> z"
    using assms by simp
  then show ?thesis
    by (simp only: le_floor_iff)
qed

lemma binary_exponent_less:
  assumes "\<bar>x\<bar> < 2 ^ b"
  shows "binary_exponent x < int b"
proof -
  have "\<bar>x\<bar> * 2 ^ subnormal_bits < 2 ^ b * 2 ^ subnormal_bits"
    using assms by (simp only: mult_less_cancel_right_pos zero_less_power zero_less_numeral)
  then have "\<bar>x\<bar> * 2 ^ subnormal_bits < 2 ^ (b + subnormal_bits)"
    by (simp only: power_add)
  then have "\<lfloor>\<bar>x\<bar> * 2 ^ subnormal_bits\<rfloor> < 2 ^ (b + subnormal_bits)"
    by (intro floor_less_power) simp_all
  then have "bitlen \<lfloor>\<bar>x\<bar> * 2 ^ subnormal_bits\<rfloor> \<le> int (b + subnormal_bits)"
    by (simp only: bitlen_le_iff_power nat_int) simp
  then show ?thesis
    by (simp add: binary_exponent_def)
qed

lemma binary_exponent_eq:
  assumes "pow2 e \<le> \<bar>x\<bar>" and "\<bar>x\<bar> < pow2 (e + 1)" and "- int subnormal_bits \<le> e"
  shows "binary_exponent x = e"
proof -
  define k where "k = nat (e + int subnormal_bits)"
  have e: "e = int k - int subnormal_bits"
    using assms(3) by (simp add: k_def)
  have lo: "pow2 e * 2 ^ subnormal_bits = 2 ^ k"
    using pow2_add [of e "int subnormal_bits"] by (simp only: pow2_nat e) (simp add: pow2_nat)
  have "pow2 (e + 1) = pow2 e * 2"
    using pow2_add [of e 1] pow2_nat [of 1] by simp
  with lo have hi: "pow2 (e + 1) * 2 ^ subnormal_bits = 2 ^ (k + 1)"
    by simp
  have "2 ^ k \<le> \<bar>x\<bar> * 2 ^ subnormal_bits"
    using assms(1) lo by (metis mult_le_cancel_right_pos zero_less_numeral zero_less_power)
  then have a: "2 ^ k \<le> \<lfloor>\<bar>x\<bar> * 2 ^ subnormal_bits\<rfloor>"
    by (rule power_le_floor)
  have "\<bar>x\<bar> * 2 ^ subnormal_bits < 2 ^ (k + 1)"
    using assms(2) hi by (metis mult_less_cancel_right_pos zero_less_numeral zero_less_power)
  then have b: "\<lfloor>\<bar>x\<bar> * 2 ^ subnormal_bits\<rfloor> < 2 ^ (k + 1)"
    by (intro floor_less_power) simp_all
  from b have "bitlen \<lfloor>\<bar>x\<bar> * 2 ^ subnormal_bits\<rfloor> \<le> int (k + 1)"
    by (simp only: bitlen_le_iff_power nat_int) simp
  moreover from a have "int (k + 1) \<le> bitlen \<lfloor>\<bar>x\<bar> * 2 ^ subnormal_bits\<rfloor>"
    by (simp only: bitlen_ge_iff_power nat_int) simp
  ultimately show ?thesis
    by (simp add: binary_exponent_def e)
qed

lemma below_overflow_threshold:
  assumes "\<bar>y\<bar> \<le> 2 ^ 16"
  shows "\<not> overflow_threshold \<le> \<bar>y\<bar>"
proof -
  have "(2::rat) ^ 16 < 2 ^ 1024"
    by (rule power_strict_increasing) simp_all
  with assms show ?thesis
    unfolding overflow_threshold_def by linarith
qed

lemma to_double_small:
  assumes "0 \<le> x" and "x \<le> of_nat k" and "k < 2 ^ 16"
  shows "\<exists>y. to_double x = Fin y \<and> 0 \<le> y \<and> y \<le> of_nat k \<and> \<bar>y - x\<bar> \<le> 1 / 2 ^ 38"
proof -
  define e where "e = max (binary_exponent x) (- 1022)"
  define d where "d = nat (52 - e)"
  define n where "n = round_half_even (x * 2 ^ d)"
  define y where "y = of_int n / (2 ^ d :: rat)"
  have "(of_nat k :: rat) < of_nat (2 ^ 16)"
    using assms(3) by (simp only: of_nat_less_iff)
  with assms(1,2) have "\<bar>x\<bar> < 2 ^ 16"
    by simp
  then have "binary_exponent x < 16"
    using binary_exponent_less [of x 16] by simp
  then have e: "e \<le> 15"
    by (simp add: e_def)
  then have d: "38 \<le> d + 1" "e - 52 \<le> 0" "nat (- (e - 52)) = d"
    by (simp_all add: d_def)
  have q: "pow2 (e - 52) = 1 / 2 ^ d"
    using pow2_neg [OF d(2)] by (simp only: d(3))
  have P: "(0::rat) < 2 ^ d"
    by simp
  have n0: "0 \<le> n"
    unfolding n_def using assms(1) by (intro round_half_even_ge_int) simp
  have "x * 2 ^ d \<le> of_int (int k * 2 ^ d)"
    using assms(2) by (simp add: mult_right_mono)
  then have nk: "n \<le> int k * 2 ^ d"
    unfolding n_def by (rule round_half_even_le_int)
  have y0: "0 \<le> y"
    using n0 by (simp add: y_def)
  have "(of_int n :: rat) \<le> of_int (int k * 2 ^ d)"
    using nk by (simp only: of_int_le_iff)
  then have "(of_int n :: rat) \<le> of_nat k * 2 ^ d"
    by simp
  then have yk: "y \<le> of_nat k"
    using P by (simp add: y_def pos_divide_le_eq)
  have "\<bar>of_int n - x * 2 ^ d\<bar> \<le> 1 / 2"
    unfolding n_def by (rule round_half_even_error)
  then have "\<bar>of_int n - x * 2 ^ d\<bar> / 2 ^ d \<le> (1 / 2) / 2 ^ d"
    using P by (simp only: divide_le_cancel) simp
  moreover have "\<bar>of_int n - x * 2 ^ d\<bar> / 2 ^ d = \<bar>y - x\<bar>"
  proof -
    have "y - x = (of_int n - x * 2 ^ d) / 2 ^ d"
      by (simp add: y_def diff_divide_distrib)
    then show ?thesis
      by (simp add: abs_divide)
  qed
  ultimately have half: "\<bar>y - x\<bar> \<le> (1 / 2) / 2 ^ d"
    by (simp only:)
  have "(1 / 2) / 2 ^ d = 1 / (2::rat) ^ (d + 1)"
    by simp
  with half have "\<bar>y - x\<bar> \<le> 1 / (2::rat) ^ (d + 1)"
    by (simp only:)
  moreover have "1 / (2::rat) ^ (d + 1) \<le> 1 / 2 ^ 38"
    using d(1) by (intro divide_left_mono power_increasing) simp_all
  ultimately have err: "\<bar>y - x\<bar> \<le> 1 / 2 ^ 38"
    by (rule order_trans)
  have "\<bar>y\<bar> \<le> 2 ^ 16"
    using y0 yk \<open>(of_nat k :: rat) < of_nat (2 ^ 16)\<close> by simp
  then have fin: "\<not> overflow_threshold \<le> \<bar>y\<bar>"
    by (rule below_overflow_threshold)
  have "of_int (round_half_even (x / pow2 (e - 52))) * pow2 (e - 52) = y"
    by (simp add: q y_def n_def)
  with fin have "to_double x = Fin y"
    by (simp add: to_double_def Let_def e_def [symmetric])
  with y0 yk err show ?thesis
    by blast
qed

lemma to_double_eqI:
  assumes "pow2 e \<le> \<bar>x\<bar>" and "\<bar>x\<bar> < pow2 (e + 1)" and "- 1022 \<le> e"
    and "round_half_even (x / pow2 (e - 52)) = n"
    and "\<bar>of_int n * pow2 (e - 52)\<bar> \<le> 2 ^ 16"
  shows "to_double x = Fin (of_int n * pow2 (e - 52))"
proof -
  have "binary_exponent x = e"
    using assms(1,2,3) by (intro binary_exponent_eq) (simp_all add: subnormal_bits_def)
  with assms(3) have "max (binary_exponent x) (- 1022) = e"
    by simp
  with below_overflow_threshold [OF assms(5)] show ?thesis
    by (simp add: to_double_def Let_def assms(4))
qed

lemma pow2_0: "pow2 0 = 1"
  by (simp add: pow2_def)

lemma pow2_inverse: "1 / pow2 a = pow2 (- a)"
proof -
  have "pow2 a * pow2 (- a) = 1"
    using pow2_add [of a "- a"] by (simp add: pow2_0)
  then show ?thesis
    using pow2_pos [of a] by (simp add: field_simps)
qed

lemma binary_exponent_less_pow2:
  assumes "\<bar>x\<bar> < pow2 b" and "- int subnormal_bits \<le> b"
  shows "binary_exponent x < b"
proof -
  define k where "k = nat (b + int subnormal_bits)"
  have b: "b = int k - int subnormal_bits"
    using assms(2) by (simp add: k_def)
  have "pow2 b * 2 ^ subnormal_bits = 2 ^ k"
    using pow2_add [of b "int subnormal_bits"] by (simp only: pow2_nat b) (simp add: pow2_nat)
  then have "\<bar>x\<bar> * 2 ^ subnormal_bits < 2 ^ k"
    using assms(1) by (metis mult_less_cancel_right_pos zero_less_numeral zero_less_power)
  then have "\<lfloor>\<bar>x\<bar> * 2 ^ subnormal_bits\<rfloor> < 2 ^ k"
    by (intro floor_less_power) simp_all
  then have "bitlen \<lfloor>\<bar>x\<bar> * 2 ^ subnormal_bits\<rfloor> \<le> int k"
    by (simp only: bitlen_le_iff_power nat_int) simp
  then show ?thesis
    by (simp add: binary_exponent_def b)
qed

lemma to_double_representable:
  assumes "\<bar>m\<bar> < 2 ^ 53" and "j \<le> 1074" and "\<bar>of_int m / (2 ^ j :: rat)\<bar> \<le> 2 ^ 16"
  shows "to_double (of_int m / 2 ^ j) = Fin (of_int m / 2 ^ j)"
proof -
  define x :: rat where "x = of_int m / 2 ^ j"
  define e where "e = max (binary_exponent x) (- 1022)"
  define t where "t = nat (52 - int j - e)"
  have xm: "x = of_int m * pow2 (- int j)"
    by (simp add: x_def pow2_neg)
  have "\<bar>of_int m :: rat\<bar> < of_int (2 ^ 53)"
    using assms(1) by (simp only: of_int_abs [symmetric] of_int_less_iff)
  then have "\<bar>of_int m :: rat\<bar> < pow2 53"
    by (simp add: pow2_def)
  then have "\<bar>x\<bar> < pow2 53 * pow2 (- int j)"
    using pow2_pos [of "- int j"] by (simp add: xm abs_mult)
  then have "\<bar>x\<bar> < pow2 (53 - int j)"
    using pow2_add [of 53 "- int j"] by simp
  then have "binary_exponent x < 53 - int j"
    using assms(2) by (intro binary_exponent_less_pow2) (simp_all add: subnormal_bits_def)
  with assms(2) have e: "e \<le> 52 - int j"
    by (simp add: e_def)
  then have t: "int t = 52 - int j - e"
    by (simp add: t_def)
  have "x / pow2 (e - 52) = x * (1 / pow2 (e - 52))"
    by simp
  also have "\<dots> = x * pow2 (52 - e)"
    by (simp only: pow2_inverse) simp
  also have "\<dots> = of_int m * (pow2 (- int j) * pow2 (52 - e))"
    by (simp only: xm mult.assoc)
  also have "pow2 (- int j) * pow2 (52 - e) = pow2 (int t)"
    using pow2_add [of "- int j" "52 - e"] by (simp add: t algebra_simps)
  finally have xq: "x / pow2 (e - 52) = of_int (m * 2 ^ t)"
    by (simp add: pow2_nat)
  have "of_int (m * 2 ^ t) * pow2 (e - 52) = of_int m * (pow2 (int t) * pow2 (e - 52))"
    by (simp add: pow2_nat)
  also have "pow2 (int t) * pow2 (e - 52) = pow2 (- int j)"
    using pow2_add [of "int t" "e - 52"] by (simp add: t)
  finally have restored: "of_int (m * 2 ^ t) * pow2 (e - 52) = x"
    by (simp only: xm)
  have "round_half_even (x / pow2 (e - 52)) = m * 2 ^ t"
    by (simp only: xq round_half_even_of_int)
  with restored have y: "of_int (round_half_even (x / pow2 (e - 52))) * pow2 (e - 52) = x"
    by (simp only:)
  from assms(3) have "\<not> overflow_threshold \<le> \<bar>x\<bar>"
    unfolding x_def by (rule below_overflow_threshold)
  with y have "to_double x = Fin x"
    by (simp add: to_double_def Let_def e_def [symmetric])
  then show ?thesis
    by (simp only: x_def)
qed

lemma floor_numeral_div: "\<lfloor>numeral a / numeral b :: rat\<rfloor> = numeral a div numeral b"
  using floor_divide_of_int_eq [of "numeral a" "numeral b", where ?'a = rat] by simp

section \<open>The loop as counts and samples per class\<close>

text \<open>
  One iteration changes the record and the samples by the label of the item alone: an
  item with one of the four labels adds one to that count and its sample to that
  sequence, every other item changes neither.
\<close>

lemma processItem_results:
  "results (processItem st outcome) =
     (let r = results st in
      if label_of outcome = Some ''Glioma'' then r\<lparr>glioma := glioma r + 1\<rparr>
      else if label_of outcome = Some ''Meningioma'' then r\<lparr>meningioma := meningioma r + 1\<rparr>
      else if label_of outcome = Some ''Pituitary'' then r\<lparr>pituitary := pituitary r + 1\<rparr>
      else if label_of outcome = Some ''No Tumor'' then r\<lparr>noTumor := noTumor r + 1\<rparr>
      else r)"
  by (cases outcome) (simp_all add: processItem_def Let_def split: option.splits)

lemma processItem_accuracies:
  "accuracies (processItem st outcome) =
     (let a = accuracies st; s = sample_of outcome in
      if label_of outcome = Some ''Glioma'' then a\<lparr>glioma_samples := glioma_samples a @ [s]\<rparr>
      else if label_of outcome = Some ''Meningioma'' then a\<lparr>meningioma_samples := meningioma_samples a @ [s]\<rparr>
      else if label_of outcome = Some ''Pituitary'' then a\<lparr>pituitary_samples := pituitary_samples a @ [s]\<rparr>
      else if label_of outcome = Some ''No Tumor'' then a\<lparr>noTumor_samples := noTumor_samples a @ [s]\<rparr>
      else a)"
  by (cases outcome) (simp_all add: processItem_def Let_def split: option.splits)

lemma processAssets_glioma:
  "glioma (results (processAssets st assets)) = glioma (results st) + count_for ''Glioma'' assets"
  by (induction assets arbitrary: st) (simp_all add: count_for_def processItem_results Let_def)

lemma processAssets_meningioma:
  "meningioma (results (processAssets st assets)) = meningioma (results st) + count_for ''Meningioma'' assets"
  by (induction assets arbitrary: st) (simp_all add: count_for_def processItem_results Let_def)

lemma processAssets_pituitary:
  "pituitary (results (processAssets st assets)) = pituitary (results st) + count_for ''Pituitary'' assets"
  by (induction assets arbitrary: st) (simp_all add: count_for_def processItem_results Let_def)

lemma processAssets_noTumor:
  "noTumor (results (processAssets st assets)) = noTumor (results st) + count_for ''No Tumor'' assets"
  by (induction assets arbitrary: st) (simp_all add: count_for_def processItem_results Let_def)

lemma processAssets_glioma_samples:
  "glioma_samples (accuracies (processAssets st assets)) =
     glioma_samples (accuracies st) @ samples_for ''Glioma'' assets"
  by (induction assets arbitrary: st) (simp_all add: samples_for_def processItem_accuracies Let_def)

lemma processAssets_meningioma_samples:
  "meningioma_samples (accuracies (processAssets st assets)) =
     meningioma_samples (accuracies st) @ samples_for ''Meningioma'' assets"
  by (induction assets arbitrary: st) (simp_all add: samples_for_def processItem_accuracies Let_def)

lemma processAssets_pituitary_samples:
  "pituitary_samples (accuracies (processAssets st assets)) =
     pituitary_samples (accuracies st) @ samples_for ''Pituitary'' assets"
  by (induction assets arbitrary: st) (simp_all add: samples_for_def processItem_accuracies Let_def)

lemma processAssets_noTumor_samples:
  "noTumor_samples (accuracies (processAssets st assets)) =
     noTumor_samples (accuracies st) @ samples_for ''No Tumor'' assets"
  by (induction assets arbitrary: st) (simp_all add: samples_for_def processItem_accuracies Let_def)

lemma processAssets_fixed_fields:
  "modelName (results (processAssets st assets)) = modelName (results st) \<and>
   timestamp (results (processAssets st assets)) = timestamp (results st) \<and>
   isGrayscale (results (processAssets st assets)) = isGrayscale (results st)"
  by (induction assets arbitrary: st) (simp_all add: processItem_results Let_def)

lemma bulkResult_fields:
  "glioma (bulkResult m now g assets) = count_for ''Glioma'' assets"
  "meningioma (bulkResult m now g assets) = count_for ''Meningioma'' assets"
  "pituitary (bulkResult m now g assets) = count_for ''Pituitary'' assets"
  "noTumor (bulkResult m now g assets) = count_for ''No Tumor'' assets"
  "modelName (bulkResult m now g assets) = m"
  "timestamp (bulkResult m now g assets) = now"
  "isGrayscale (bulkResult m now g assets) = g"
  "gliomaAccuracy (bulkResult m now g assets) = meanAccuracy (samples_for ''Glioma'' assets)"
  "meningiomaAccuracy (bulkResult m now g assets) = meanAccuracy (samples_for ''Meningioma'' assets)"
  "pituitaryAccuracy (bulkResult m now g assets) = meanAccuracy (samples_for ''Pituitary'' assets)"
  "noTumorAccuracy (bulkResult m now g assets) = meanAccuracy (samples_for ''No Tumor'' assets)"
  by (simp_all add: bulkResult_def withMeans_def runLoop_def processAssets_glioma
      processAssets_meningioma processAssets_pituitary processAssets_noTumor
      processAssets_fixed_fields processAssets_glioma_samples processAssets_meningioma_samples
      processAssets_pituitary_samples processAssets_noTumor_samples
      initialResults_def initialAccuracies_def)

lemma bulkResult_eq:
  "bulkResult m now g assets =
     \<lparr>glioma = count_for ''Glioma'' assets, meningioma = count_for ''Meningioma'' assets,
      pituitary = count_for ''Pituitary'' assets, noTumor = count_for ''No Tumor'' assets,
      modelName = m, timestamp = now,
      gliomaAccuracy = meanAccuracy (samples_for ''Glioma'' assets),
      meningiomaAccuracy = meanAccuracy (samples_for ''Meningioma'' assets),
      pituitaryAccuracy = meanAccuracy (samples_for ''Pituitary'' assets),
      noTumorAccuracy = meanAccuracy (samples_for ''No Tumor'' assets),
      isGrayscale = g\<rparr>"
  by (rule BulkPredictionResult.equality) (simp_all add: bulkResult_fields)

lemma label_not_failed: "label_of outcome = Some l \<Longrightarrow> \<not> item_failed outcome"
  by (cases outcome) (auto split: if_splits option.splits)

lemma failed_no_label: "item_failed outcome \<Longrightarrow> label_of outcome = None"
  by (cases outcome) (auto split: if_splits option.splits)

lemma filter_label_succeeded:
  "filter (\<lambda>outcome. label_of outcome = Some l) (filter (\<lambda>outcome. \<not> item_failed outcome) assets) =
   filter (\<lambda>outcome. label_of outcome = Some l) assets"
  by (induction assets) (auto dest: label_not_failed)

lemma count_for_succeeded:
  "count_for l (filter (\<lambda>outcome. \<not> item_failed outcome) assets) = count_for l assets"
  by (simp add: count_for_def filter_label_succeeded del: filter_filter)

lemma samples_for_succeeded:
  "samples_for l (filter (\<lambda>outcome. \<not> item_failed outcome) assets) = samples_for l assets"
  by (simp add: samples_for_def filter_label_succeeded del: filter_filter)

lemma count_for_append: "count_for l (xs @ ys) = count_for l xs + count_for l ys"
  by (simp add: count_for_def)

lemma samples_for_append: "samples_for l (xs @ ys) = samples_for l xs @ samples_for l ys"
  by (simp add: samples_for_def)

lemma count_for_failed: "item_failed outcome \<Longrightarrow> count_for l (outcome # ys) = count_for l ys"
  by (simp add: count_for_def failed_no_label)

lemma samples_for_failed: "item_failed outcome \<Longrightarrow> samples_for l (outcome # ys) = samples_for l ys"
  by (simp add: samples_for_def failed_no_label)

lemma four_counts_partition:
  "(\<forall>outcome \<in> set assets. \<not> item_failed outcome \<longrightarrow> has_fixed_label outcome) \<Longrightarrow>
   count_for ''Glioma'' assets + count_for ''Meningioma'' assets + count_for ''Pituitary'' assets
     + count_for ''No Tumor'' assets + failureCount assets = length assets"
proof (induction assets)
  case Nil
  show ?case by (simp add: count_for_def failureCount_def)
next
  case (Cons outcome rest)
  then have ih: "count_for ''Glioma'' rest + count_for ''Meningioma'' rest + count_for ''Pituitary'' rest
     + count_for ''No Tumor'' rest + failureCount rest = length rest"
    by simp
  show ?case
  proof (cases "item_failed outcome")
    case True
    then show ?thesis using ih
      by (simp add: count_for_failed failureCount_def)
  next
    case False
    with Cons.prems have "has_fixed_label outcome" by simp
    then have "label_of outcome = Some ''Glioma'' \<or> label_of outcome = Some ''Meningioma''
       \<or> label_of outcome = Some ''Pituitary'' \<or> label_of outcome = Some ''No Tumor''"
      by (auto simp: has_fixed_label_def CLASS_LABELS_def)
    then show ?thesis using ih False
      by (auto simp: count_for_def failureCount_def)
  qed
qed


section \<open>The record of a run, field by field\<close>

text \<open>
  Claim C1, as amended. The loop keeps no count of failures and the record has no field
  for one: an item that failed leaves the counts and the samples as they were, so the
  record of a run is the record of the same batch without its failed items. The number
  of failed items therefore cannot be read off the record.
\<close>

theorem failures_not_reported:
  "bulkResult m now g assets = bulkResult m now g (filter (\<lambda>outcome. \<not> item_failed outcome) assets)"
  by (simp add: bulkResult_eq count_for_succeeded samples_for_succeeded)

theorem failures_not_reported_witness:
  "bulkResult ''m'' ''t'' False scenario_batch =
     bulkResult ''m'' ''t'' False [example_ok ''Glioma'' (9 / 10), example_ok ''Glioma'' (7 / 10)]"
  using failures_not_reported [of "''m''" "''t''" False scenario_batch]
  by (simp add: scenario_batch_def example_ok_def)

text \<open>
  Claim C1 as stated fails: three runs of one item or none give the same record, with
  one failure in the first and none in the other two. The first and the third run have
  the same batch size as well.
\<close>

theorem failure_count_counterexample:
  "bulkResult ''m'' ''t'' False [Threw ''x''] = bulkResult ''m'' ''t'' False []
   \<and> bulkResult ''m'' ''t'' False [Threw ''x''] =
       bulkResult ''m'' ''t'' False [example_ok ''Unknown'' (1 / 2)]
   \<and> failureCount [Threw ''x''] = 1 \<and> failureCount [] = 0
   \<and> failureCount [example_ok ''Unknown'' (1 / 2)] = 0"
  by (simp add: bulkResult_eq count_for_def samples_for_def failureCount_def example_ok_def)

text \<open>
  Claim C2. When every item that did not fail carries one of the four labels, the four
  counts of the record sum to \<open>N - F\<close>. A failed item changes neither the record nor
  the samples, the loop goes on with the items after it, and the record of the run is
  the one of the batch without that item.
\<close>

theorem counts_sum_to_successes:
  "((\<forall>outcome \<in> set assets. \<not> item_failed outcome \<longrightarrow> has_fixed_label outcome) \<longrightarrow>
      classifiedTotal (bulkResult m now g assets) = length assets - failureCount assets)
   \<and> (item_failed failed \<longrightarrow>
        results (processItem st failed) = results st
        \<and> accuracies (processItem st failed) = accuracies st
        \<and> processAssets st (before @ failed # after) =
            processAssets (processItem (processAssets st before) failed) after
        \<and> bulkResult m now g (before @ failed # after) = bulkResult m now g (before @ after))"
proof (intro conjI impI)
  assume "\<forall>outcome \<in> set assets. \<not> item_failed outcome \<longrightarrow> has_fixed_label outcome"
  from four_counts_partition [OF this]
  show "classifiedTotal (bulkResult m now g assets) = length assets - failureCount assets"
    by (simp add: classifiedTotal_def bulkResult_fields)
next
  assume "item_failed failed"
  then show "results (processItem st failed) = results st"
    by (simp add: processItem_results failed_no_label)
next
  assume "item_failed failed"
  then show "accuracies (processItem st failed) = accuracies st"
    by (simp add: processItem_accuracies failed_no_label)
next
  show "processAssets st (before @ failed # after) =
            processAssets (processItem (processAssets st before) failed) after"
    by (induction before arbitrary: st) simp_all
next
  assume "item_failed failed"
  then show "bulkResult m now g (before @ failed # after) = bulkResult m now g (before @ after)"
    by (simp add: bulkResult_eq count_for_append samples_for_append count_for_failed samples_for_failed)
qed

theorem counts_sum_to_successes_witness:
  "classifiedTotal (bulkResult ''m'' ''t'' False scenario_batch) =
     length scenario_batch - failureCount scenario_batch
   \<and> length scenario_batch = 3 \<and> failureCount scenario_batch = 1
   \<and> results (processItem empty_run (Threw ''Network request failed'')) = results empty_run
   \<and> accuracies (processItem empty_run (Threw ''Network request failed'')) = accuracies empty_run
   \<and> bulkResult ''m'' ''t'' False
        ([example_ok ''Glioma'' (9 / 10)] @ Threw ''Network request failed''
          # [example_ok ''Glioma'' (7 / 10)]) =
       bulkResult ''m'' ''t'' False
        ([example_ok ''Glioma'' (9 / 10)] @ [example_ok ''Glioma'' (7 / 10)])"
proof -
  have hyp: "\<forall>outcome \<in> set scenario_batch. \<not> item_failed outcome \<longrightarrow> has_fixed_label outcome"
    by (simp add: scenario_batch_def example_ok_def has_fixed_label_def CLASS_LABELS_def)
  have failed: "item_failed (Threw ''Network request failed'')"
    by simp
  have len: "length scenario_batch = 3 \<and> failureCount scenario_batch = 1"
    by (simp add: scenario_batch_def example_ok_def failureCount_def)
  from counts_sum_to_successes [of scenario_batch "''m''" "''t''" False
      "Threw ''Network request failed''" empty_run "[example_ok ''Glioma'' (9 / 10)]"
      "[example_ok ''Glioma'' (7 / 10)]"] hyp failed len
  show ?thesis
    by blast
qed

text \<open>
  Claim C3. A class that no successfully classified item of the batch carries has the
  mean confidence 0 exactly, a finite number: the division is not evaluated for it. This
  covers the empty batch and the batch in which every item failed.
\<close>

theorem zero_samples_mean_zero:
  "((\<forall>outcome \<in> set assets. label_of outcome \<noteq> Some ''Glioma'') \<longrightarrow>
      gliomaAccuracy (bulkResult m now g assets) = Fin 0)
   \<and> ((\<forall>outcome \<in> set assets. label_of outcome \<noteq> Some ''Meningioma'') \<longrightarrow>
      meningiomaAccuracy (bulkResult m now g assets) = Fin 0)
   \<and> ((\<forall>outcome \<in> set assets. label_of outcome \<noteq> Some ''Pituitary'') \<longrightarrow>
      pituitaryAccuracy (bulkResult m now g assets) = Fin 0)
   \<and> ((\<forall>outcome \<in> set assets. label_of outcome \<noteq> Some ''No Tumor'') \<longrightarrow>
      noTumorAccuracy (bulkResult m now g assets) = Fin 0)
   \<and> ((\<forall>outcome \<in> set assets. item_failed outcome) \<longrightarrow>
      gliomaAccuracy (bulkResult m now g assets) = Fin 0
      \<and> meningiomaAccuracy (bulkResult m now g assets) = Fin 0
      \<and> pituitaryAccuracy (bulkResult m now g assets) = Fin 0
      \<and> noTumorAccuracy (bulkResult m now g assets) = Fin 0)"
proof -
  have none: "samples_for l assets = []" if "\<forall>outcome \<in> set assets. label_of outcome \<noteq> Some l" for l
    using that by (simp add: samples_for_def filter_empty_conv)
  have zero: "meanAccuracy [] = Fin 0"
    by (simp add: meanAccuracy_def)
  have failed: "\<forall>outcome \<in> set assets. label_of outcome \<noteq> Some l"
    if "\<forall>outcome \<in> set assets. item_failed outcome" for l
    using that by (simp add: failed_no_label)
  show ?thesis
    by (intro conjI impI) (simp_all add: bulkResult_fields none failed zero)
qed

theorem zero_samples_mean_zero_witness:
  "meningiomaAccuracy (bulkResult ''m'' ''t'' False scenario_batch) = Fin 0
   \<and> pituitaryAccuracy (bulkResult ''m'' ''t'' False scenario_batch) = Fin 0
   \<and> noTumorAccuracy (bulkResult ''m'' ''t'' False scenario_batch) = Fin 0
   \<and> gliomaAccuracy (bulkResult ''m'' ''t'' False []) = Fin 0
   \<and> gliomaAccuracy (bulkResult ''m'' ''t'' False [Threw ''x'', Responded False \<lparr>data_class = ''Glioma'', data_probability = None\<rparr>]) = Fin 0"
proof -
  have a: "\<forall>outcome \<in> set scenario_batch. label_of outcome \<noteq> Some ''Meningioma''"
    "\<forall>outcome \<in> set scenario_batch. label_of outcome \<noteq> Some ''Pituitary''"
    "\<forall>outcome \<in> set scenario_batch. label_of outcome \<noteq> Some ''No Tumor''"
    by (simp_all add: scenario_batch_def example_ok_def)
  have b: "\<forall>outcome \<in> set ([] :: fetch_outcome list). label_of outcome \<noteq> Some ''Glioma''"
    by simp
  have c: "\<forall>outcome \<in> set [Threw ''x'', Responded False \<lparr>data_class = ''Glioma'', data_probability = None\<rparr>]. item_failed outcome"
    by simp
  from zero_samples_mean_zero [of scenario_batch "''m''" "''t''" False] a
    zero_samples_mean_zero [of "[]" "''m''" "''t''" False] b
    zero_samples_mean_zero [of "[Threw ''x'', Responded False \<lparr>data_class = ''Glioma'', data_probability = None\<rparr>]" "''m''" "''t''" False] c
  show ?thesis by blast
qed

text \<open>
  The guard is what keeps the mean finite: the division that the \<open>else\<close> branch avoids
  would be 0 / 0, which is NaN.
\<close>

lemma unguarded_mean_of_nothing:
  "js_div (foldl js_add (Fin 0) []) (Fin (of_nat (length ([] :: jsnum list)))) = NaN"
  by simp

text \<open>
  Claim C10. An item answered with success whose class string is none of the four
  labels changes no count and no sample. When its probability field can be spread, the
  \<^verbatim>\<open>try\<close> block ends normally with the state unchanged, so nothing is written to the
  console either and the item is no failure. For some batches without any failure the
  four counts therefore sum to less than the number of items.
\<close>

theorem unknown_label_excluded:
  "(data_class d \<notin> set CLASS_LABELS \<longrightarrow>
      results (processItem st (Responded True d)) = results st
      \<and> accuracies (processItem st (Responded True d)) = accuracies st)
   \<and> (data_class d \<notin> set CLASS_LABELS \<and> data_probability d \<noteq> None \<longrightarrow>
      \<not> item_failed (Responded True d)
      \<and> tryBody st (Responded True d) = Inr st
      \<and> processItem st (Responded True d) = st)
   \<and> (\<exists>assets. failureCount assets = 0 \<and>
         classifiedTotal (bulkResult m now g assets) < length assets)"
proof (intro conjI impI)
  assume "data_class d \<notin> set CLASS_LABELS"
  then show "results (processItem st (Responded True d)) = results st"
    by (simp add: processItem_results CLASS_LABELS_def split: option.splits)
next
  assume "data_class d \<notin> set CLASS_LABELS"
  then show "accuracies (processItem st (Responded True d)) = accuracies st"
    by (simp add: processItem_accuracies CLASS_LABELS_def split: option.splits)
next
  assume "data_class d \<notin> set CLASS_LABELS \<and> data_probability d \<noteq> None"
  then show "\<not> item_failed (Responded True d)"
    by simp
next
  assume "data_class d \<notin> set CLASS_LABELS \<and> data_probability d \<noteq> None"
  then show "tryBody st (Responded True d) = Inr st"
    by (auto simp: CLASS_LABELS_def Let_def)
next
  assume "data_class d \<notin> set CLASS_LABELS \<and> data_probability d \<noteq> None"
  then show "processItem st (Responded True d) = st"
    by (auto simp: processItem_def CLASS_LABELS_def Let_def)
next
  have "failureCount [example_ok ''Unknown'' (1 / 2)] = 0"
    by (simp add: failureCount_def example_ok_def)
  moreover have "classifiedTotal (bulkResult m now g [example_ok ''Unknown'' (1 / 2)]) < length [example_ok ''Unknown'' (1 / 2)]"
    by (simp add: classifiedTotal_def bulkResult_fields count_for_def example_ok_def)
  ultimately show "\<exists>assets. failureCount assets = 0 \<and>
         classifiedTotal (bulkResult m now g assets) < length assets"
    by blast
qed

theorem unknown_label_excluded_witness:
  "results (processItem empty_run (example_ok ''Unknown'' (1 / 2))) = results empty_run
   \<and> accuracies (processItem empty_run (example_ok ''Unknown'' (1 / 2))) = accuracies empty_run
   \<and> \<not> item_failed (example_ok ''Unknown'' (1 / 2))
   \<and> tryBody empty_run (example_ok ''Unknown'' (1 / 2)) = Inr empty_run
   \<and> processItem empty_run (example_ok ''Unknown'' (1 / 2)) = empty_run"
proof -
  have hyp: "data_class \<lparr>data_class = ''Unknown'',
       data_probability = Some [Fin (1 / 2), Fin ((1 - 1 / 2) / 3), Fin ((1 - 1 / 2) / 3),
         Fin ((1 - 1 / 2) / 3)]\<rparr> \<notin> set CLASS_LABELS"
    by (simp add: CLASS_LABELS_def)
  have prob: "data_probability \<lparr>data_class = ''Unknown'',
       data_probability = Some [Fin (1 / 2), Fin ((1 - 1 / 2) / 3), Fin ((1 - 1 / 2) / 3),
         Fin ((1 - 1 / 2) / 3)]\<rparr> \<noteq> None"
    by simp
  from unknown_label_excluded [of "\<lparr>data_class = ''Unknown'',
       data_probability = Some [Fin (1 / 2), Fin ((1 - 1 / 2) / 3), Fin ((1 - 1 / 2) / 3),
         Fin ((1 - 1 / 2) / 3)]\<rparr>" empty_run] hyp prob
  show ?thesis
    unfolding example_ok_def by blast
qed

section \<open>The mean confidence of a class with samples\<close>

lemma Max_insert_max:
  "finite S \<Longrightarrow> Max (insert (max a b) S) = Max (insert a (insert b S))" for a :: rat
  by (cases "S = {}") (simp_all add: max.assoc)

lemma Math_max_from_Fin:
  "list_all unit_interval ps \<Longrightarrow>
   Math_max_from (Fin h) ps = Fin (Max (insert h (value_of ` set ps)))"
proof (induction ps arbitrary: h)
  case Nil
  show ?case by simp
next
  case (Cons x xs)
  then obtain p where x: "x = Fin p" and rest: "list_all unit_interval xs"
    by (cases x) simp_all
  have "Math_max_from (Fin h) (x # xs) = Math_max_from (Fin (max h p)) xs"
    by (simp add: x max_def)
  also have "\<dots> = Fin (Max (insert (max h p) (value_of ` set xs)))"
    by (rule Cons.IH [OF rest])
  also have "Max (insert (max h p) (value_of ` set xs)) = Max (insert h (value_of ` set (x # xs)))"
    by (simp add: Max_insert_max x)
  finally show ?case .
qed

lemma Math_max_valid:
  assumes "valid_probabilities ps"
  shows "Math_max ps = Fin (max_probability ps)"
    and "0 \<le> max_probability ps" and "max_probability ps \<le> 1"
proof -
  from assms obtain x xs where ps: "ps = x # xs"
    by (cases ps) (simp_all add: valid_probabilities_def)
  with assms obtain p where x: "x = Fin p" and rest: "list_all unit_interval xs"
    by (cases x) (simp_all add: valid_probabilities_def)
  have "Math_max ps = Math_max_from (Fin p) xs"
    by (simp add: Math_max_def ps x)
  then show "Math_max ps = Fin (max_probability ps)"
    by (simp add: Math_max_from_Fin [OF rest] max_probability_def ps x)
  have "max_probability ps \<in> value_of ` set ps"
    unfolding max_probability_def by (rule Max_in) (simp_all add: ps)
  then obtain y where y: "y \<in> set ps" "max_probability ps = value_of y"
    by auto
  with assms have "unit_interval y"
    by (simp add: valid_probabilities_def list_all_iff)
  with y(2) have "0 \<le> max_probability ps \<and> max_probability ps \<le> 1"
    by (cases y) simp_all
  then show "0 \<le> max_probability ps" and "max_probability ps \<le> 1"
    by simp_all
qed

text \<open>
  Without an entry the maximum is minus infinity, and so is the mean of the class: the
  hypothesis that the vector is not empty cannot be dropped.
\<close>

lemma empty_vector_mean:
  "gliomaAccuracy (bulkResult m now g
     [Responded True \<lparr>data_class = ''Glioma'', data_probability = Some []\<rparr>]) = NegInf"
  by (simp add: bulkResult_fields samples_for_def meanAccuracy_def Math_max_def
      inf_of_sign_def toFixed2_def Number_def)

lemma to_double_percent:
  assumes "0 \<le> x" and "x \<le> of_nat k" and "k \<le> 50000"
  shows "\<exists>y. to_double x = Fin y \<and> 0 \<le> y \<and> y \<le> of_nat k \<and> \<bar>y - x\<bar> \<le> double_error"
  unfolding double_error_def using assms by (intro to_double_small) simp_all

lemma sample_of_valid:
  assumes "valid_outcome outcome"
  shows "\<exists>y. sample_of outcome = Fin y \<and> 0 \<le> y \<and> y \<le> 100
           \<and> \<bar>y - confidence_sample outcome\<bar> \<le> double_error"
proof -
  from assms obtain ok d ps where o: "outcome = Responded ok d" "data_probability d = Some ps"
    and v: "valid_probabilities ps"
    by (cases outcome) (auto split: option.splits)
  from Math_max_valid [OF v]
  have m: "Math_max ps = Fin (max_probability ps)" "0 \<le> max_probability ps"
    "max_probability ps \<le> 1"
    by simp_all
  from m(2,3) have "0 \<le> max_probability ps * 100" "max_probability ps * 100 \<le> of_nat 100"
    by simp_all
  from to_double_percent [OF this] obtain y
    where "to_double (max_probability ps * 100) = Fin y" "0 \<le> y" "y \<le> 100"
      "\<bar>y - max_probability ps * 100\<bar> \<le> double_error"
    by auto
  with o m(1) show ?thesis
    by simp
qed

lemma samples_for_doubles:
  assumes "\<forall>outcome \<in> set assets. label_of outcome = Some l \<longrightarrow> valid_outcome outcome"
  shows "\<exists>xs. samples_for l assets = map Fin xs
           \<and> list_all2 (\<lambda>x c. 0 \<le> x \<and> x \<le> 100 \<and> \<bar>x - c\<bar> \<le> double_error)
                xs (confidence_samples l assets)"
  using assms
proof (induction assets)
  case Nil
  show ?case
    by (simp add: samples_for_def confidence_samples_def)
next
  case (Cons outcome rest)
  then obtain xs where xs: "samples_for l rest = map Fin xs"
    "list_all2 (\<lambda>x c. 0 \<le> x \<and> x \<le> 100 \<and> \<bar>x - c\<bar> \<le> double_error) xs (confidence_samples l rest)"
    by auto
  show ?case
  proof (cases "label_of outcome = Some l")
    case False
    with xs show ?thesis
      by (auto simp: samples_for_def confidence_samples_def)
  next
    case True
    with Cons.prems have "valid_outcome outcome"
      by simp
    from sample_of_valid [OF this] obtain y
      where y: "sample_of outcome = Fin y" "0 \<le> y" "y \<le> 100"
        "\<bar>y - confidence_sample outcome\<bar> \<le> double_error"
      by auto
    have "samples_for l (outcome # rest) = map Fin (y # xs)"
      using True xs(1) y(1) by (simp add: samples_for_def)
    moreover have "list_all2 (\<lambda>x c. 0 \<le> x \<and> x \<le> 100 \<and> \<bar>x - c\<bar> \<le> double_error)
        (y # xs) (confidence_samples l (outcome # rest))"
      using True xs(2) y(2,3,4) by (simp add: confidence_samples_def)
    ultimately show ?thesis
      by blast
  qed
qed

lemma sum_list_close:
  fixes xs cs :: "rat list"
  assumes "list_all2 (\<lambda>x c. \<bar>x - c\<bar> \<le> eps) xs cs"
  shows "\<bar>sum_list xs - sum_list cs\<bar> \<le> of_nat (length xs) * eps"
  using assms
proof (induction rule: list_all2_induct)
  case Nil
  show ?case by simp
next
  case (Cons x xs c cs)
  have "\<bar>sum_list (x # xs) - sum_list (c # cs)\<bar> \<le> \<bar>x - c\<bar> + \<bar>sum_list xs - sum_list cs\<bar>"
    by simp
  with Cons show ?case
    by (simp add: algebra_simps)
qed

lemma foldl_js_add_doubles:
  assumes "\<forall>x \<in> set xs. 0 \<le> x \<and> x \<le> 100" and "0 \<le> a" and "a \<le> of_nat (100 * k)"
    and "k + length xs \<le> 500"
  shows "\<exists>s. foldl js_add (Fin a) (map Fin xs) = Fin s \<and> 0 \<le> s
           \<and> s \<le> of_nat (100 * (k + length xs))
           \<and> \<bar>s - (a + sum_list xs)\<bar> \<le> of_nat (length xs) * double_error"
  using assms
proof (induction xs arbitrary: a k)
  case Nil
  then show ?case by simp
next
  case (Cons x xs)
  from Cons.prems have x: "0 \<le> x" "x \<le> 100"
    by simp_all
  with Cons.prems have "0 \<le> a + x" "a + x \<le> of_nat (100 * Suc k)"
    by simp_all
  moreover from Cons.prems have "100 * Suc k \<le> 50000"
    by simp
  ultimately obtain a' where a': "to_double (a + x) = Fin a'" "0 \<le> a'"
    "a' \<le> of_nat (100 * Suc k)" "\<bar>a' - (a + x)\<bar> \<le> double_error"
    using to_double_percent [of "a + x" "100 * Suc k"] by blast
  from Cons.prems have rest: "\<forall>x \<in> set xs. 0 \<le> x \<and> x \<le> 100" "Suc k + length xs \<le> 500"
    by simp_all
  from Cons.IH [OF rest(1) a'(2) a'(3) rest(2)] obtain s
    where s: "foldl js_add (Fin a') (map Fin xs) = Fin s" "0 \<le> s"
      "s \<le> of_nat (100 * (Suc k + length xs))"
      "\<bar>s - (a' + sum_list xs)\<bar> \<le> of_nat (length xs) * double_error"
    by blast
  have "\<bar>s - (a + sum_list (x # xs))\<bar> \<le> \<bar>s - (a' + sum_list xs)\<bar> + \<bar>a' - (a + x)\<bar>"
    by simp
  with s(4) a'(4) have "\<bar>s - (a + sum_list (x # xs))\<bar> \<le> of_nat (length (x # xs)) * double_error"
    by (simp add: algebra_simps)
  with s(1,2,3) a'(1) show ?case
    by simp
qed

lemma toFixed2_percent:
  assumes "0 \<le> m" and "m \<le> 100"
  shows "\<exists>h. toFixed2 (Fin m) = TextDecimal False h \<and> h \<le> 10000
           \<and> \<bar>of_nat h / 100 - m\<bar> \<le> 1 / 200"
proof -
  define z where "z = \<lfloor>m * 100 + 1 / 2\<rfloor>"
  have fl: "of_int z \<le> m * 100 + 1 / 2" "m * 100 + 1 / 2 < of_int z + 1"
    unfolding z_def by linarith+
  have "0 \<le> z"
    unfolding z_def using assms(1) by (simp add: le_floor_iff)
  then have h: "(of_nat (nat z) :: rat) = of_int z"
    by simp
  have "m * 100 + 1 / 2 < of_int 10001"
    using assms(2) by simp
  then have "z < 10001"
    unfolding z_def by (simp only: floor_less_iff)
  with \<open>0 \<le> z\<close> have le: "nat z \<le> 10000"
    by simp
  have "\<bar>of_int z / 100 - m\<bar> \<le> 1 / 200"
    using fl by linarith
  then have close: "\<bar>of_nat (nat z) / 100 - m\<bar> \<le> 1 / 200"
    by (simp only: h)
  have "toFixed2 (Fin m) = TextDecimal False (nat z)"
    using assms by (simp add: toFixed2_def Let_def z_def)
  with le close show ?thesis
    by blast
qed

lemma meanAccuracy_doubles:
  assumes "xs \<noteq> []" and "length xs \<le> 500" and "\<forall>x \<in> set xs. 0 \<le> x \<and> x \<le> 100"
  shows "\<exists>r h. meanAccuracy (map Fin xs) = Fin r \<and> Fin r = to_double (of_nat h / 100)
           \<and> h \<le> 10000 \<and> 0 \<le> r \<and> r \<le> 100
           \<and> \<bar>r - arithmetic_mean xs\<bar> \<le> 1 / 200 + 3 * double_error"
proof -
  define n :: rat where "n = of_nat (length xs)"
  from assms(1) have n: "0 < n"
    by (simp add: n_def)
  from foldl_js_add_doubles [OF assms(3), of 0 0] assms(2) obtain s
    where s: "foldl js_add (Fin 0) (map Fin xs) = Fin s" "0 \<le> s"
      "s \<le> 100 * n" "\<bar>s - sum_list xs\<bar> \<le> n * double_error"
    by (auto simp: n_def)
  from s(2,3) n have "0 \<le> s / n" "s / n \<le> of_nat 100"
    by (simp_all add: pos_divide_le_eq)
  from to_double_percent [OF this] obtain m
    where m: "to_double (s / n) = Fin m" "0 \<le> m" "m \<le> 100" "\<bar>m - s / n\<bar> \<le> double_error"
    by auto
  from toFixed2_percent [OF m(2,3)] obtain h
    where h: "toFixed2 (Fin m) = TextDecimal False h" "h \<le> 10000"
      "\<bar>of_nat h / 100 - m\<bar> \<le> 1 / 200"
    by blast
  from h(2) have "(of_nat h :: rat) \<le> of_nat 10000"
    by (simp only: of_nat_le_iff)
  then have "0 \<le> (of_nat h :: rat) / 100" "(of_nat h :: rat) / 100 \<le> of_nat 100"
    by simp_all
  from to_double_percent [OF this] obtain r
    where r: "to_double (of_nat h / 100) = Fin r" "0 \<le> r" "r \<le> 100"
      "\<bar>r - of_nat h / 100\<bar> \<le> double_error"
    by auto
  have "js_div (Fin s) (Fin n) = Fin m"
    using n m(1) by simp
  then have mean: "meanAccuracy (map Fin xs) = Fin r"
    using assms(1) s(1) h(1) r(1) by (simp add: meanAccuracy_def n_def Number_def)
  have "s / n - sum_list xs / n = (s - sum_list xs) / n"
    by (simp add: diff_divide_distrib)
  then have "\<bar>s / n - sum_list xs / n\<bar> = \<bar>s - sum_list xs\<bar> / n"
    using n by (simp add: abs_divide)
  also have "\<dots> \<le> (n * double_error) / n"
    using s(4) n by (simp only: divide_le_cancel) simp
  also have "\<dots> = double_error"
    using n by simp
  finally have sum_close: "\<bar>s / n - arithmetic_mean xs\<bar> \<le> double_error"
    by (simp add: arithmetic_mean_def n_def)
  have "\<bar>r - arithmetic_mean xs\<bar> \<le> \<bar>r - of_nat h / 100\<bar> + \<bar>of_nat h / 100 - m\<bar>
      + \<bar>m - s / n\<bar> + \<bar>s / n - arithmetic_mean xs\<bar>"
    by linarith
  with r(4) h(3) m(4) sum_close
  have "\<bar>r - arithmetic_mean xs\<bar> \<le> 1 / 200 + 3 * double_error"
    by linarith
  with mean r(1,2,3) h(2) show ?thesis
    by (metis)
qed

lemma class_mean_within_rounding:
  assumes "\<exists>outcome \<in> set assets. label_of outcome = Some l"
    and "\<forall>outcome \<in> set assets. label_of outcome = Some l \<longrightarrow> valid_outcome outcome"
    and "length assets \<le> 500"
  shows "is_mean_within_rounding (meanAccuracy (samples_for l assets)) (confidence_samples l assets)
         \<and> (\<exists>h \<le> 10000. meanAccuracy (samples_for l assets) = to_double (of_nat h / 100))"
proof -
  let ?cs = "confidence_samples l assets"
  from samples_for_doubles [OF assms(2)] obtain xs
    where xs: "samples_for l assets = map Fin xs"
      "list_all2 (\<lambda>x c. 0 \<le> x \<and> x \<le> 100 \<and> \<bar>x - c\<bar> \<le> double_error) xs ?cs"
    by blast
  then have len: "length xs = length ?cs"
    by (simp add: list_all2_lengthD)
  from assms(1) have "?cs \<noteq> []"
    by (auto simp: confidence_samples_def filter_empty_conv)
  with len have ne: "xs \<noteq> []"
    by auto
  have "length ?cs \<le> length assets"
    by (simp add: confidence_samples_def)
  with len assms(3) have le: "length xs \<le> 500"
    by simp
  from xs(2) have range: "\<forall>x \<in> set xs. 0 \<le> x \<and> x \<le> 100"
    by (auto simp: list_all2_conv_all_nth in_set_conv_nth)
  from xs(2) have "list_all2 (\<lambda>x c. \<bar>x - c\<bar> \<le> double_error) xs ?cs"
    by (rule list_all2_mono) simp
  from sum_list_close [OF this]
  have sums: "\<bar>sum_list xs - sum_list ?cs\<bar> \<le> of_nat (length xs) * double_error" .
  define n :: rat where "n = of_nat (length xs)"
  from ne have n: "0 < n"
    by (simp add: n_def)
  have "arithmetic_mean xs - arithmetic_mean ?cs = (sum_list xs - sum_list ?cs) / n"
    by (simp add: arithmetic_mean_def n_def len diff_divide_distrib)
  then have "\<bar>arithmetic_mean xs - arithmetic_mean ?cs\<bar> = \<bar>sum_list xs - sum_list ?cs\<bar> / n"
    using n by (simp add: abs_divide)
  also have "\<dots> \<le> (n * double_error) / n"
    using sums n unfolding n_def by (simp only: divide_le_cancel) simp
  also have "\<dots> = double_error"
    using n by simp
  finally have means: "\<bar>arithmetic_mean xs - arithmetic_mean ?cs\<bar> \<le> double_error" .
  from meanAccuracy_doubles [OF ne le range] obtain r h
    where r: "meanAccuracy (map Fin xs) = Fin r" "Fin r = to_double (of_nat h / 100)"
      "h \<le> 10000" "0 \<le> r" "r \<le> 100"
      "\<bar>r - arithmetic_mean xs\<bar> \<le> 1 / 200 + 3 * double_error"
    by blast
  from r(6) means have "\<bar>r - arithmetic_mean ?cs\<bar> \<le> 1 / 200 + 4 * double_error"
    by linarith
  with r(1,4,5) have "is_mean_within_rounding (meanAccuracy (samples_for l assets)) ?cs"
    by (simp add: is_mean_within_rounding_def xs(1))
  moreover from r(1,2,3) have "\<exists>h \<le> 10000. meanAccuracy (samples_for l assets) = to_double (of_nat h / 100)"
    unfolding xs(1) by metis
  ultimately show ?thesis
    by blast
qed

text \<open>
  Claim C4, as amended. For a class with at least one successfully classified item in a
  batch of at most 500 items, each item of the class with a non-empty vector of
  probabilities between 0 and 1, the recorded mean confidence is the double nearest to
  a number of two decimals, lies between 0 and 100, and differs from the exact
  arithmetic mean of the samples \<open>max(probabilities) * 100\<close> by at most
  \<open>0.005 + 2^-36\<close>. It is the sum of the rounded samples, formed from left to right in
  doubles and divided by their count, that \<^verbatim>\<open>toFixed(2)\<close> rounds; the result can
  therefore be the neighbouring hundredth of the exactly rounded mean.
\<close>

theorem mean_confidence_within_rounding:
  "((\<exists>outcome \<in> set assets. label_of outcome = Some ''Glioma'')
      \<and> (\<forall>outcome \<in> set assets. label_of outcome = Some ''Glioma'' \<longrightarrow> valid_outcome outcome)
      \<and> length assets \<le> 500 \<longrightarrow>
     is_mean_within_rounding (gliomaAccuracy (bulkResult m now g assets))
       (confidence_samples ''Glioma'' assets)
     \<and> (\<exists>h \<le> 10000. gliomaAccuracy (bulkResult m now g assets) = to_double (of_nat h / 100)))
   \<and> ((\<exists>outcome \<in> set assets. label_of outcome = Some ''Meningioma'')
      \<and> (\<forall>outcome \<in> set assets. label_of outcome = Some ''Meningioma'' \<longrightarrow> valid_outcome outcome)
      \<and> length assets \<le> 500 \<longrightarrow>
     is_mean_within_rounding (meningiomaAccuracy (bulkResult m now g assets))
       (confidence_samples ''Meningioma'' assets)
     \<and> (\<exists>h \<le> 10000. meningiomaAccuracy (bulkResult m now g assets) = to_double (of_nat h / 100)))
   \<and> ((\<exists>outcome \<in> set assets. label_of outcome = Some ''Pituitary'')
      \<and> (\<forall>outcome \<in> set assets. label_of outcome = Some ''Pituitary'' \<longrightarrow> valid_outcome outcome)
      \<and> length assets \<le> 500 \<longrightarrow>
     is_mean_within_rounding (pituitaryAccuracy (bulkResult m now g assets))
       (confidence_samples ''Pituitary'' assets)
     \<and> (\<exists>h \<le> 10000. pituitaryAccuracy (bulkResult m now g assets) = to_double (of_nat h / 100)))
   \<and> ((\<exists>outcome \<in> set assets. label_of outcome = Some ''No Tumor'')
      \<and> (\<forall>outcome \<in> set assets. label_of outcome = Some ''No Tumor'' \<longrightarrow> valid_outcome outcome)
      \<and> length assets \<le> 500 \<longrightarrow>
     is_mean_within_rounding (noTumorAccuracy (bulkResult m now g assets))
       (confidence_samples ''No Tumor'' assets)
     \<and> (\<exists>h \<le> 10000. noTumorAccuracy (bulkResult m now g assets) = to_double (of_nat h / 100)))"
proof -
  have key: "(\<exists>outcome \<in> set assets. label_of outcome = Some l)
      \<and> (\<forall>outcome \<in> set assets. label_of outcome = Some l \<longrightarrow> valid_outcome outcome)
      \<and> length assets \<le> 500 \<longrightarrow>
     is_mean_within_rounding (meanAccuracy (samples_for l assets)) (confidence_samples l assets)
     \<and> (\<exists>h \<le> 10000. meanAccuracy (samples_for l assets) = to_double (of_nat h / 100))" for l
    using class_mean_within_rounding [of assets l] by blast
  show ?thesis
    unfolding bulkResult_fields by (intro conjI key)
qed

theorem mean_confidence_within_rounding_witness:
  "is_mean_within_rounding (gliomaAccuracy (bulkResult ''m'' ''t'' False rounding_batch))
     (confidence_samples ''Glioma'' rounding_batch)
   \<and> (\<exists>h \<le> 10000. gliomaAccuracy (bulkResult ''m'' ''t'' False rounding_batch) =
         to_double (of_nat h / 100))
   \<and> list_all valid_outcome rounding_batch \<and> length rounding_batch = 2"
proof -
  have ex: "\<exists>outcome \<in> set rounding_batch. label_of outcome = Some ''Glioma''"
    by (simp add: rounding_batch_def)
  have valid: "list_all valid_outcome rounding_batch"
    by (simp add: rounding_batch_def valid_probabilities_def)
  then have hyp: "\<forall>outcome \<in> set rounding_batch. label_of outcome = Some ''Glioma'' \<longrightarrow> valid_outcome outcome"
    by (simp add: list_all_iff)
  have len: "length rounding_batch = 2"
    by (simp add: rounding_batch_def)
  then have le: "length rounding_batch \<le> 500"
    by simp
  from mean_confidence_within_rounding [of rounding_batch "''m''" "''t''" False] ex hyp le
  have "is_mean_within_rounding (gliomaAccuracy (bulkResult ''m'' ''t'' False rounding_batch))
     (confidence_samples ''Glioma'' rounding_batch)
   \<and> (\<exists>h \<le> 10000. gliomaAccuracy (bulkResult ''m'' ''t'' False rounding_batch) =
         to_double (of_nat h / 100))"
    by blast
  with valid len show ?thesis
    by blast
qed

text \<open>
  The run over \<open>rounding_batch\<close>, operation by operation: the two products, the two
  sums, the quotient, the text of \<^verbatim>\<open>toFixed(2)\<close> and the number read from it.
\<close>

lemma rounding_sample_1:
  "js_mul (Fin (4020813747316379 / 4503599627370496)) (Fin 100) =
     Fin (3141260740090921 / 35184372088832)"
proof -
  have "to_double (4020813747316379 / 4503599627370496 * 100) =
      Fin (of_int 6282521480181842 * pow2 (6 - 52))"
    by (rule to_double_eqI) (simp_all add: pow2_def round_half_even_def Let_def floor_numeral_div)
  then show ?thesis
    by (simp add: pow2_def)
qed

lemma rounding_sample_2:
  "js_mul (Fin (1230158238216251 / 2251799813685248)) (Fin 100) =
     Fin (7688488988851569 / 140737488355328)"
proof -
  have "to_double (1230158238216251 / 2251799813685248 * 100) =
      Fin (of_int 7688488988851569 * pow2 (5 - 52))"
    by (rule to_double_eqI) (simp_all add: pow2_def round_half_even_def Let_def floor_numeral_div)
  then show ?thesis
    by (simp add: pow2_def)
qed

lemma rounding_sum_1:
  "js_add (Fin 0) (Fin (3141260740090921 / 35184372088832)) =
     Fin (3141260740090921 / 35184372088832)"
  using to_double_representable [of 3141260740090921 45] by simp

lemma rounding_sum_2:
  "js_add (Fin (3141260740090921 / 35184372088832)) (Fin (7688488988851569 / 140737488355328)) =
     Fin (5063382987303813 / 35184372088832)"
proof -
  have "to_double (3141260740090921 / 35184372088832 + 7688488988851569 / 140737488355328) =
      Fin (of_int 5063382987303813 * pow2 (7 - 52))"
    by (rule to_double_eqI) (simp_all add: pow2_def round_half_even_def Let_def floor_numeral_div)
  then show ?thesis
    by (simp add: pow2_def)
qed

lemma rounding_quotient:
  "js_div (Fin (5063382987303813 / 35184372088832)) (Fin 2) =
     Fin (5063382987303813 / 70368744177664)"
  using to_double_representable [of 5063382987303813 46] by simp

lemma rounding_toFixed:
  "toFixed2 (Fin (5063382987303813 / 70368744177664)) = TextDecimal False 7195"
  by (simp add: toFixed2_def Let_def floor_numeral_div)

lemma rounding_Number:
  "Number (TextDecimal False 7195) = Fin (5063031143582925 / 70368744177664)"
proof -
  have "to_double (1439 / 20) = Fin (of_int 5063031143582925 * pow2 (6 - 52))"
    by (rule to_double_eqI) (simp_all add: pow2_def round_half_even_def Let_def floor_numeral_div)
  then show ?thesis
    by (simp add: pow2_def Number_def)
qed

lemma rounding_batch_samples:
  "samples_for ''Glioma'' rounding_batch =
     [Fin (3141260740090921 / 35184372088832), Fin (7688488988851569 / 140737488355328)]"
  by (simp add: samples_for_def rounding_batch_def Math_max_def rounding_sample_1 rounding_sample_2
      del: js_mul.simps)

lemma rounding_batch_mean:
  "meanAccuracy [Fin (3141260740090921 / 35184372088832), Fin (7688488988851569 / 140737488355328)] =
     Fin (5063031143582925 / 70368744177664)"
  by (simp add: meanAccuracy_def rounding_sum_1 rounding_sum_2 rounding_quotient rounding_toFixed
      rounding_Number del: js_add.simps js_div.simps)

lemma rounding_batch_exact:
  "confidence_samples ''Glioma'' rounding_batch =
     [100520343682909475 / 1125899906842624, 30753955955406275 / 562949953421312]"
  by (simp add: confidence_samples_def rounding_batch_def max_probability_def)

text \<open>
  Claim C4 as stated fails. In \<open>rounding_batch\<close> the samples are the doubles nearest to
  89.28 and 54.63; their sum rounds to a double whose half lies just below 71.955, so
  the text is 71.95 and the recorded mean the double nearest to 71.95. The exact mean,
  of the recorded samples as of the exact products, lies just above 71.955 and rounds
  to 71.96.
\<close>

theorem mean_confidence_rounded_counterexample:
  "list_all valid_outcome rounding_batch
   \<and> samples_for ''Glioma'' rounding_batch =
       [Fin (3141260740090921 / 35184372088832), Fin (7688488988851569 / 140737488355328)]
   \<and> gliomaAccuracy (bulkResult ''m'' ''t'' False rounding_batch) =
       Fin (5063031143582925 / 70368744177664)
   \<and> Number (TextDecimal False 7195) = Fin (5063031143582925 / 70368744177664)
   \<and> round_2_decimals
        (arithmetic_mean [3141260740090921 / 35184372088832, 7688488988851569 / 140737488355328]) =
       7196 / 100
   \<and> round_2_decimals (arithmetic_mean (confidence_samples ''Glioma'' rounding_batch)) = 7196 / 100
   \<and> \<not> is_rounded_mean (gliomaAccuracy (bulkResult ''m'' ''t'' False rounding_batch))
        (confidence_samples ''Glioma'' rounding_batch)"
proof -
  have valid: "list_all valid_outcome rounding_batch"
    by (simp add: rounding_batch_def valid_probabilities_def)
  have recorded: "gliomaAccuracy (bulkResult ''m'' ''t'' False rounding_batch) =
       Fin (5063031143582925 / 70368744177664)"
    by (simp only: bulkResult_fields rounding_batch_samples rounding_batch_mean)
  have doubles: "round_2_decimals
        (arithmetic_mean [3141260740090921 / 35184372088832, 7688488988851569 / 140737488355328]) =
       7196 / 100"
    by (simp add: round_2_decimals_def arithmetic_mean_def round_def floor_numeral_div)
  have exact: "round_2_decimals (arithmetic_mean (confidence_samples ''Glioma'' rounding_batch)) =
       7196 / 100"
    by (simp add: rounding_batch_exact round_2_decimals_def arithmetic_mean_def round_def
        floor_numeral_div)
  have "\<not> is_rounded_mean (Fin (5063031143582925 / 70368744177664))
        (confidence_samples ''Glioma'' rounding_batch)"
    by (simp add: is_rounded_mean_def exact)
  with valid recorded doubles exact rounding_batch_samples rounding_Number show ?thesis
    by (simp only:) simp
qed

section \<open>The bounded logs\<close>

lemma withMeans_runLoop: "withMeans (runLoop m now g cons assets) = bulkResult m now g assets"
  by (rule BulkPredictionResult.equality)
     (simp_all add: bulkResult_fields withMeans_def runLoop_def processAssets_glioma
      processAssets_meningioma processAssets_pituitary processAssets_noTumor
      processAssets_fixed_fields processAssets_glioma_samples processAssets_meningioma_samples
      processAssets_pituitary_samples processAssets_noTumor_samples
      initialResults_def initialAccuracies_def)




lemma processBulkImages_ok:
  assumes "\<not> getItem_fails env" and "\<not> setItem_fails env" and "bulkImages st = Some assets"
  shows "stored_bulkPredictionHistory (storage (processBulkImages env now st)) =
     Some (map JSON_roundtrip
       (prependCapped 50 (as_entry (bulkResult (current_modelName st) now (isGrayscaleEnabled st) assets))
         (parsed_or_empty (stored_bulkPredictionHistory (storage st)))))"
    and "bulkPredictionHistory (processBulkImages env now st) =
     prependCapped 50 (as_entry (bulkResult (current_modelName st) now (isGrayscaleEnabled st) assets))
       (parsed_or_empty (stored_bulkPredictionHistory (storage st)))"
    and "bulkPrediction (processBulkImages env now st) =
     Some (bulkResult (current_modelName st) now (isGrayscaleEnabled st) assets)"
  using assms
  by (simp_all add: processBulkImages_def getItem_bulkPredictionHistory_def
      setItem_bulkPredictionHistory_def Let_def withMeans_runLoop)

text \<open>
  The stored text keeps a record with finite means as it is, and decodes to the same
  record when it is written again: every log that these functions stored is its own
  encoding.
\<close>

lemma JSON_number_idem: "JSON_number (JSON_number v) = JSON_number v"
  by (simp add: JSON_number_def split: option.splits jsnum.splits)

lemma JSON_roundtrip_idem: "JSON_roundtrip (JSON_roundtrip e) = JSON_roundtrip e"
  by (simp add: JSON_roundtrip_def JSON_number_idem)

lemma JSON_roundtrip_fields:
  "glioma (JSON_roundtrip e) = glioma e"
  "meningioma (JSON_roundtrip e) = meningioma e"
  "pituitary (JSON_roundtrip e) = pituitary e"
  "noTumor (JSON_roundtrip e) = noTumor e"
  "modelName (JSON_roundtrip e) = modelName e"
  "timestamp (JSON_roundtrip e) = timestamp e"
  "isGrayscale (JSON_roundtrip e) = isGrayscale e"
  by (simp_all add: JSON_roundtrip_def)

lemma JSON_roundtrip_finite:
  assumes "gliomaAccuracy r = Fin a" and "meningiomaAccuracy r = Fin b"
    and "pituitaryAccuracy r = Fin c" and "noTumorAccuracy r = Fin d"
  shows "JSON_roundtrip (as_entry r) = as_entry r"
  using assms by (simp add: JSON_roundtrip_def as_entry_def JSON_number_def)

lemma JSON_roundtrip_example_record: "JSON_roundtrip (example_record ts) = example_record ts"
  by (simp add: example_record_def initialResults_def JSON_roundtrip_finite)

lemma stored_log_is_encoded:
  "setItem_bulkPredictionHistory env v s = Inr s' \<Longrightarrow>
   map JSON_roundtrip (parsed_or_empty (stored_bulkPredictionHistory s')) =
     parsed_or_empty (stored_bulkPredictionHistory s')"
  by (auto simp add: setItem_bulkPredictionHistory_def parsed_or_empty_def JSON_roundtrip_idem
      split: if_splits)

text \<open>
  A mean that is not finite is stored as \<^verbatim>\<open>null\<close>: for a Glioma answer with an empty
  vector of probabilities the log in memory holds \<open>-Infinity\<close> and the stored log \<^verbatim>\<open>null\<close>.
\<close>

lemma infinite_mean_stored_as_null:
  "map gliomaAccuracy (bulkPredictionHistory (processBulkImages no_faults ''now''
      ((example_layout [])\<lparr>bulkImages :=
         Some [Responded True \<lparr>data_class = ''Glioma'', data_probability = Some []\<rparr>]\<rparr>))) =
     [Some NegInf]
   \<and> map gliomaAccuracy (parsed_or_empty (stored_bulkPredictionHistory (storage
      (processBulkImages no_faults ''now''
        ((example_layout [])\<lparr>bulkImages :=
           Some [Responded True \<lparr>data_class = ''Glioma'', data_probability = Some []\<rparr>]\<rparr>))))) =
     [None]"
proof -
  let ?assets = "[Responded True \<lparr>data_class = ''Glioma'', data_probability = Some []\<rparr>]"
  let ?st = "(example_layout [])\<lparr>bulkImages := Some ?assets\<rparr>"
  have ok: "\<not> getItem_fails no_faults" "\<not> setItem_fails no_faults"
    by (simp_all add: no_faults_def)
  have st: "bulkImages ?st = Some ?assets" "current_modelName ?st = ''m''"
    "isGrayscaleEnabled ?st = False"
    "parsed_or_empty (stored_bulkPredictionHistory (storage ?st)) = []"
    by (simp_all add: example_layout_def parsed_or_empty_def)
  have mean: "gliomaAccuracy (bulkResult ''m'' ''now'' False ?assets) = NegInf"
    by (rule empty_vector_mean)
  note run = processBulkImages_ok(1,2) [OF ok st(1), of "''now''", unfolded st]
  show ?thesis
    unfolding run
    by (simp add: prependCapped_def parsed_or_empty_def JSON_roundtrip_def as_entry_def mean
        JSON_number_def)
qed



section \<open>Deleting a bulk record\<close>

lemma filter_single:
  "length (filter P xs) = 1 \<Longrightarrow>
   \<exists>ys x zs. xs = ys @ x # zs \<and> P x \<and> filter (\<lambda>y. \<not> P y) xs = ys @ zs"
proof (induction xs)
  case Nil
  then show ?case by simp
next
  case (Cons a xs)
  show ?case
  proof (cases "P a")
    case True
    with Cons.prems have "filter P xs = []" by simp
    then have "filter (\<lambda>y. \<not> P y) xs = xs"
      by (simp add: filter_empty_conv)
    with True have "a # xs = [] @ a # xs \<and> P a \<and> filter (\<lambda>y. \<not> P y) (a # xs) = [] @ xs"
      by simp
    then show ?thesis by blast
  next
    case False
    with Cons.prems have "length (filter P xs) = 1" by simp
    from Cons.IH [OF this] obtain ys x zs
      where "xs = ys @ x # zs" "P x" "filter (\<lambda>y. \<not> P y) xs = ys @ zs"
      by blast
    with False have "a # xs = (a # ys) @ x # zs \<and> P x \<and> filter (\<lambda>y. \<not> P y) (a # xs) = (a # ys) @ zs"
      by simp
    then show ?thesis by blast
  qed
qed

lemma length_filter_complement:
  "length (filter (\<lambda>y. \<not> P y) xs) = length xs - length (filter P xs)"
  using sum_length_filter_compl [of P xs] by simp

lemma example_record_fields:
  "timestamp (example_record ts) = ts"
  "glioma (example_record ts) = 0"
  by (simp_all add: example_record_def initialResults_def as_entry_def)

text \<open>
  Claim C6, as amended. \<^verbatim>\<open>deleteHistoryItem\<close> works on the log in memory, not on the
  stored one: it keeps the records in memory whose timestamp differs from the given one,
  in their order, so that every record carrying the timestamp is removed, and the length
  goes down by their number. It then writes that list: when the write is accepted, the
  stored log is the JSON text of the new log in memory, whatever was stored before and
  whether or not a record matched; when the write is rejected, the store is as before,
  the log in memory stays changed, and an error is logged and an alert shown. No
  exception leaves the function. When exactly one record in memory carries the
  timestamp, that record and no other is removed; when none does, the log in memory is
  unchanged, and an accepted write leaves the store unchanged if the store held the
  text of the log in memory.
\<close>

theorem delete_filters_memory_log:
  "bulkPredictionHistory (deleteHistoryItem env ts st) =
     filter (\<lambda>item. timestamp item \<noteq> ts) (bulkPredictionHistory st)
   \<and> length (bulkPredictionHistory (deleteHistoryItem env ts st)) =
       length (bulkPredictionHistory st)
         - length (filter (\<lambda>item. timestamp item = ts) (bulkPredictionHistory st))
   \<and> (\<not> setItem_fails env \<longrightarrow>
        stored_bulkPredictionHistory (storage (deleteHistoryItem env ts st)) =
          Some (map JSON_roundtrip (bulkPredictionHistory (deleteHistoryItem env ts st)))
        \<and> stored_predictionHistory (storage (deleteHistoryItem env ts st)) =
            stored_predictionHistory (storage st)
        \<and> alerts (deleteHistoryItem env ts st) = alerts st
        \<and> console_log (deleteHistoryItem env ts st) = console_log st)
   \<and> (setItem_fails env \<longrightarrow>
        storage (deleteHistoryItem env ts st) = storage st
        \<and> alerts (deleteHistoryItem env ts st) = alerts st @ [AlertHistoryNotDeleted]
        \<and> console_log (deleteHistoryItem env ts st) = console_log st @ [HistoryNotDeleted])
   \<and> (length (filter (\<lambda>item. timestamp item = ts) (bulkPredictionHistory st)) = 1 \<longrightarrow>
        (\<exists>before removed after.
           bulkPredictionHistory st = before @ removed # after \<and> timestamp removed = ts
           \<and> bulkPredictionHistory (deleteHistoryItem env ts st) = before @ after))
   \<and> ((\<forall>item \<in> set (bulkPredictionHistory st). timestamp item \<noteq> ts) \<longrightarrow>
        bulkPredictionHistory (deleteHistoryItem env ts st) = bulkPredictionHistory st
        \<and> (\<not> setItem_fails env
             \<and> stored_bulkPredictionHistory (storage st) =
                 Some (map JSON_roundtrip (bulkPredictionHistory st)) \<longrightarrow>
            storage (deleteHistoryItem env ts st) = storage st))"
proof -
  have mem: "bulkPredictionHistory (deleteHistoryItem env ts st) =
     filter (\<lambda>item. timestamp item \<noteq> ts) (bulkPredictionHistory st)"
    by (simp add: deleteHistoryItem_def setItem_bulkPredictionHistory_def Let_def)
  have len: "length (filter (\<lambda>item. timestamp item \<noteq> ts) (bulkPredictionHistory st)) =
       length (bulkPredictionHistory st)
         - length (filter (\<lambda>item. timestamp item = ts) (bulkPredictionHistory st))"
    by (rule length_filter_complement)
  have ok: "stored_bulkPredictionHistory (storage (deleteHistoryItem env ts st)) =
          Some (map JSON_roundtrip (filter (\<lambda>item. timestamp item \<noteq> ts) (bulkPredictionHistory st)))
        \<and> stored_predictionHistory (storage (deleteHistoryItem env ts st)) =
            stored_predictionHistory (storage st)
        \<and> alerts (deleteHistoryItem env ts st) = alerts st
        \<and> console_log (deleteHistoryItem env ts st) = console_log st"
    if "\<not> setItem_fails env"
    using that by (simp add: deleteHistoryItem_def setItem_bulkPredictionHistory_def Let_def)
  have bad: "storage (deleteHistoryItem env ts st) = storage st
        \<and> alerts (deleteHistoryItem env ts st) = alerts st @ [AlertHistoryNotDeleted]
        \<and> console_log (deleteHistoryItem env ts st) = console_log st @ [HistoryNotDeleted]"
    if "setItem_fails env"
    using that by (simp add: deleteHistoryItem_def setItem_bulkPredictionHistory_def Let_def)
  have one: "\<exists>before removed after.
           bulkPredictionHistory st = before @ removed # after \<and> timestamp removed = ts
           \<and> filter (\<lambda>item. timestamp item \<noteq> ts) (bulkPredictionHistory st) = before @ after"
    if h: "length (filter (\<lambda>item. timestamp item = ts) (bulkPredictionHistory st)) = 1"
    using filter_single [OF h] by simp
  have none: "filter (\<lambda>item. timestamp item \<noteq> ts) (bulkPredictionHistory st) = bulkPredictionHistory st"
    if "\<forall>item \<in> set (bulkPredictionHistory st). timestamp item \<noteq> ts"
    using that by (simp add: filter_id_conv)
  have same: "storage (deleteHistoryItem env ts st) = storage st"
    if "\<forall>item \<in> set (bulkPredictionHistory st). timestamp item \<noteq> ts"
      and "\<not> setItem_fails env"
      and "stored_bulkPredictionHistory (storage st) = Some (map JSON_roundtrip (bulkPredictionHistory st))"
  proof -
    have "storage (deleteHistoryItem env ts st) =
        (storage st)\<lparr>stored_bulkPredictionHistory :=
          Some (map JSON_roundtrip (filter (\<lambda>item. timestamp item \<noteq> ts) (bulkPredictionHistory st)))\<rparr>"
      using that(2) by (simp add: deleteHistoryItem_def setItem_bulkPredictionHistory_def Let_def)
    also have "\<dots> = (storage st)\<lparr>stored_bulkPredictionHistory := stored_bulkPredictionHistory (storage st)\<rparr>"
      by (simp only: none [OF that(1)] that(3))
    also have "\<dots> = storage st"
      by simp
    finally show ?thesis .
  qed
  show ?thesis
    unfolding mem
    by (intro conjI impI) (simp_all add: len ok bad one none same)
qed

theorem delete_filters_memory_log_witness:
  "bulkPredictionHistory (deleteHistoryItem no_faults ''t2''
       (example_layout [example_record ''t3'', example_record ''t2'', example_record ''t1''])) =
     [example_record ''t3'', example_record ''t1'']
   \<and> stored_bulkPredictionHistory (storage (deleteHistoryItem no_faults ''t2''
       (example_layout [example_record ''t3'', example_record ''t2'', example_record ''t1'']))) =
     Some [example_record ''t3'', example_record ''t1'']
   \<and> bulkPredictionHistory (deleteHistoryItem no_faults ''t9''
       (example_layout [example_record ''t3'', example_record ''t2'', example_record ''t1''])) =
     [example_record ''t3'', example_record ''t2'', example_record ''t1'']
   \<and> storage (deleteHistoryItem no_faults ''t9''
       (example_layout [example_record ''t3'', example_record ''t2'', example_record ''t1''])) =
     storage (example_layout [example_record ''t3'', example_record ''t2'', example_record ''t1''])
   \<and> alerts (deleteHistoryItem no_faults ''t9''
       (example_layout [example_record ''t3'', example_record ''t2'', example_record ''t1''])) = []
   \<and> alerts (deleteHistoryItem write_fault ''t9''
       (example_layout [example_record ''t3'', example_record ''t2'', example_record ''t1''])) =
     [AlertHistoryNotDeleted]"
proof -
  let ?st = "example_layout [example_record ''t3'', example_record ''t2'', example_record ''t1'']"
  have mem: "bulkPredictionHistory ?st = [example_record ''t3'', example_record ''t2'', example_record ''t1'']"
    "alerts ?st = []"
    "stored_bulkPredictionHistory (storage ?st) =
       Some [example_record ''t3'', example_record ''t2'', example_record ''t1'']"
    by (simp_all add: example_layout_def)
  have ok: "\<not> setItem_fails no_faults" "setItem_fails write_fault"
    by (simp_all add: no_faults_def write_fault_def)
  from delete_filters_memory_log [of no_faults "''t2''" ?st]
    delete_filters_memory_log [of no_faults "''t9''" ?st]
    delete_filters_memory_log [of write_fault "''t9''" ?st]
  show ?thesis
    by (simp add: mem example_record_fields ok JSON_roundtrip_example_record)
qed

text \<open>
  Claim C6 as stated fails in two ways. Records in memory that share the timestamp are
  all removed: of three records, two of them stamped \<open>t2\<close>, one is left. And the stored
  log is replaced by the log in memory, which a rejected write leaves behind the store:
  in \<open>stale_layout\<close> (a delete of \<open>tB\<close> whose write was rejected) the store holds \<open>tB\<close> and
  \<open>tA\<close>; a further delete for a timestamp that no record carries removes \<open>tB\<close> from the
  store, and a delete of \<open>tA\<close> empties it.
\<close>

theorem delete_by_timestamp_counterexample:
  "length (bulkPredictionHistory (example_layout
       [example_record ''t2'', example_record ''t1'', (example_record ''t2'')\<lparr>glioma := 5\<rparr>])) = 3
   \<and> length (filter (\<lambda>item. timestamp item = ''t2'') (bulkPredictionHistory (example_layout
       [example_record ''t2'', example_record ''t1'', (example_record ''t2'')\<lparr>glioma := 5\<rparr>]))) = 2
   \<and> bulkPredictionHistory (deleteHistoryItem no_faults ''t2'' (example_layout
       [example_record ''t2'', example_record ''t1'', (example_record ''t2'')\<lparr>glioma := 5\<rparr>])) =
     [example_record ''t1'']
   \<and> stored_bulkPredictionHistory (storage (deleteHistoryItem no_faults ''t2'' (example_layout
       [example_record ''t2'', example_record ''t1'', (example_record ''t2'')\<lparr>glioma := 5\<rparr>]))) =
     Some [example_record ''t1'']
   \<and> stale_layout = deleteHistoryItem write_fault ''tB''
       (example_layout [example_record ''tB'', example_record ''tA''])
   \<and> stored_bulkPredictionHistory (storage stale_layout) =
       Some [example_record ''tB'', example_record ''tA'']
   \<and> filter (\<lambda>item. timestamp item = ''t9'')
       (parsed_or_empty (stored_bulkPredictionHistory (storage stale_layout))) = []
   \<and> filter (\<lambda>item. timestamp item = ''t9'') (bulkPredictionHistory stale_layout) = []
   \<and> stored_bulkPredictionHistory (storage (deleteHistoryItem no_faults ''t9'' stale_layout)) =
       Some [example_record ''tA'']
   \<and> alerts (deleteHistoryItem no_faults ''t9'' stale_layout) = alerts stale_layout
   \<and> stored_bulkPredictionHistory (storage (deleteHistoryItem no_faults ''tA'' stale_layout)) =
       Some []"
  by (simp add: stale_layout_def example_layout_def parsed_or_empty_def
      deleteHistoryItem_def setItem_bulkPredictionHistory_def Let_def no_faults_def write_fault_def
      JSON_roundtrip_def JSON_number_def example_record_def as_entry_def initialResults_def)

section \<open>Repeating an operation of the history view\<close>

text \<open>
  Claim C7. Each of \<^verbatim>\<open>loadHistory\<close>, \<^verbatim>\<open>resetHistory\<close>, the loader of the bulk log,
  \<^verbatim>\<open>deleteHistoryItem\<close> and \<^verbatim>\<open>refreshBulkPredictionHistory\<close>, run twice in succession
  against a storage that answers the same way, leaves the store and the log in memory
  as one run does. (The console and the alerts are not part of that state.)
\<close>

theorem history_operations_idempotent:
  "history_view (loadHistory env (loadHistory env h)) = history_view (loadHistory env h)
   \<and> history_view (resetHistory env (resetHistory env h)) = history_view (resetHistory env h)
   \<and> layout_view (loadBulkPredictionHistory env (loadBulkPredictionHistory env st)) =
       layout_view (loadBulkPredictionHistory env st)
   \<and> layout_view (deleteHistoryItem env ts (deleteHistoryItem env ts st)) =
       layout_view (deleteHistoryItem env ts st)
   \<and> layout_view (refreshBulkPredictionHistory env (refreshBulkPredictionHistory env st)) =
       layout_view (refreshBulkPredictionHistory env st)"
proof (intro conjI)
  show "history_view (loadHistory env (loadHistory env h)) = history_view (loadHistory env h)"
    by (simp add: history_view_def loadHistory_def getItem_predictionHistory_def Let_def
        split: option.splits)
  show "history_view (resetHistory env (resetHistory env h)) = history_view (resetHistory env h)"
    by (simp add: history_view_def resetHistory_def removeItem_predictionHistory_def)
  show "layout_view (loadBulkPredictionHistory env (loadBulkPredictionHistory env st)) =
       layout_view (loadBulkPredictionHistory env st)"
    by (simp add: layout_view_def loadBulkPredictionHistory_def getItem_bulkPredictionHistory_def
        split: option.splits)
  show "layout_view (deleteHistoryItem env ts (deleteHistoryItem env ts st)) =
       layout_view (deleteHistoryItem env ts st)"
    by (simp add: layout_view_def deleteHistoryItem_def setItem_bulkPredictionHistory_def Let_def)
  show "layout_view (refreshBulkPredictionHistory env (refreshBulkPredictionHistory env st)) =
       layout_view (refreshBulkPredictionHistory env st)"
    by (simp add: layout_view_def refreshBulkPredictionHistory_def getItem_bulkPredictionHistory_def
        split: option.splits)
qed

theorem history_operations_idempotent_witness:
  "history_view (resetHistory no_faults (resetHistory no_faults (example_history ten_predictions))) =
     history_view (resetHistory no_faults (example_history ten_predictions))
   \<and> layout_view (deleteHistoryItem write_fault ''t2''
        (deleteHistoryItem write_fault ''t2'' (example_layout [example_record ''t2'']))) =
       layout_view (deleteHistoryItem write_fault ''t2'' (example_layout [example_record ''t2'']))"
proof -
  from history_operations_idempotent [of no_faults "example_history ten_predictions"
      "example_layout [example_record ''t2'']" "''t2''"]
  have a: "history_view (resetHistory no_faults (resetHistory no_faults (example_history ten_predictions))) =
     history_view (resetHistory no_faults (example_history ten_predictions))"
    by blast
  from history_operations_idempotent [of write_fault "example_history ten_predictions"
      "example_layout [example_record ''t2'']" "''t2''"]
  have b: "layout_view (deleteHistoryItem write_fault ''t2''
        (deleteHistoryItem write_fault ''t2'' (example_layout [example_record ''t2'']))) =
       layout_view (deleteHistoryItem write_fault ''t2'' (example_layout [example_record ''t2'']))"
    by blast
  from a b show ?thesis
    by blast
qed

section \<open>Editing a note\<close>

text \<open>
  Claim C8. For an index within the loaded log, \<^verbatim>\<open>updateNote\<close> returns normally; the
  log in memory is the old one with the note of that record replaced, every other
  record and the length unchanged. The whole updated log is then written: when the write
  succeeds the store holds it, and when the write is rejected the store is unchanged,
  the log in memory keeps the new note, and the failure is written to the console.
\<close>

theorem note_edit_persists_or_reports:
  "index < length (history st) \<longrightarrow>
     (\<exists>st'. updateNote env index newNote st = Inr st'
        \<and> history st' = (history st)[index := (history st ! index)\<lparr>pred_note := newNote\<rparr>]
        \<and> pred_note (history st' ! index) = newNote
        \<and> length (history st') = length (history st)
        \<and> (\<forall>j < length (history st). j \<noteq> index \<longrightarrow> history st' ! j = history st ! j)
        \<and> (\<not> setItem_fails env \<longrightarrow>
             stored_predictionHistory (history_storage st') = Some (history st')
             \<and> history_console st' = history_console st)
        \<and> (setItem_fails env \<longrightarrow>
             history_storage st' = history_storage st
             \<and> history_console st' = history_console st @ [FailedToSaveNote]))"
  by (cases "setItem_fails env")
     (simp_all add: updateNote_def setItem_predictionHistory_def Let_def)

theorem note_edit_persists_or_reports_witness:
  "(\<exists>st'. updateNote write_fault 1 ''seen'' (example_history [example_prediction ''t2'', example_prediction ''t1'']) = Inr st'
      \<and> history st' = [example_prediction ''t2'', (example_prediction ''t1'')\<lparr>pred_note := ''seen''\<rparr>]
      \<and> stored_predictionHistory (history_storage st') = Some [example_prediction ''t2'', example_prediction ''t1'']
      \<and> history_console st' = [FailedToSaveNote])
   \<and> (\<exists>st'. updateNote no_faults 1 ''seen'' (example_history [example_prediction ''t2'', example_prediction ''t1'']) = Inr st'
      \<and> history st' = [example_prediction ''t2'', (example_prediction ''t1'')\<lparr>pred_note := ''seen''\<rparr>]
      \<and> stored_predictionHistory (history_storage st') =
           Some [example_prediction ''t2'', (example_prediction ''t1'')\<lparr>pred_note := ''seen''\<rparr>]
      \<and> history_console st' = [])"
proof -
  let ?st = "example_history [example_prediction ''t2'', example_prediction ''t1'']"
  have idx: "1 < length (history ?st)"
    by (simp add: example_history_def)
  have st: "history ?st = [example_prediction ''t2'', example_prediction ''t1'']"
    "history_console ?st = []"
    "stored_predictionHistory (history_storage ?st) = Some [example_prediction ''t2'', example_prediction ''t1'']"
    by (simp_all add: example_history_def)
  have env: "setItem_fails write_fault" "\<not> setItem_fails no_faults"
    by (simp_all add: write_fault_def no_faults_def)
  from note_edit_persists_or_reports [of 1 ?st write_fault "''seen''"] idx
  obtain a where a: "updateNote write_fault 1 ''seen'' ?st = Inr a"
    "history a = (history ?st)[1 := (history ?st ! 1)\<lparr>pred_note := ''seen''\<rparr>]"
    "history_storage a = history_storage ?st"
    "history_console a = history_console ?st @ [FailedToSaveNote]"
    using env by blast
  from note_edit_persists_or_reports [of 1 ?st no_faults "''seen''"] idx
  obtain b where b: "updateNote no_faults 1 ''seen'' ?st = Inr b"
    "history b = (history ?st)[1 := (history ?st ! 1)\<lparr>pred_note := ''seen''\<rparr>]"
    "stored_predictionHistory (history_storage b) = Some (history b)"
    "history_console b = history_console ?st"
    using env by blast
  from a b show ?thesis
    by (simp add: st)
qed

section \<open>Formatting is safe on malformed vectors\<close>

lemma four_elements: "length ps = 4 \<Longrightarrow> \<exists>a b c d. ps = [a, b, c, d]"
  by (auto simp: eval_nat_numeral length_Suc_conv)

lemma indexed_CLASS_LABELS:
  "indexed CLASS_LABELS = [(''Glioma'', 0), (''No Tumor'', 1), (''Meningioma'', 2), (''Pituitary'', 3)]"
proof -
  have "[0..<4] = [0, 1, 2, Suc 2]"
    by (simp add: upt_rec)
  then show ?thesis
    by (simp add: indexed_def CLASS_LABELS_def)
qed

lemma malformed_cases:
  "malformed None = Inr True"
  "malformed (Some ps) = Inr (length ps \<noteq> length CLASS_LABELS)"
  by (simp_all add: malformed_def js_length_def)

lemma formatProbabilities_four:
  "formatProbabilities sh (Some [a, b, c, d]) =
     Inr (join newline (map2 (\<lambda>label p. label @ '': %'' @ percentage sh (Some p))
            CLASS_LABELS [a, b, c, d]))"
  by (simp add: formatProbabilities_def malformed_cases indexed_CLASS_LABELS js_get_def)
     (simp add: CLASS_LABELS_def)

lemma history_formatProbabilities_four:
  "history_formatProbabilities sh (Some [a, b, c, d]) =
     Inr (join newline (map2 (\<lambda>label p. label @ '': '' @ percentage sh (Some p) @ ''%'')
            CLASS_LABELS [a, b, c, d]))"
  by (simp add: history_formatProbabilities_def malformed_cases indexed_CLASS_LABELS js_get_def)
     (simp add: CLASS_LABELS_def)

lemma foldl_pick:
  "foldl (\<lambda>m i. if P i m then i else m) m0 xs \<in> insert m0 (set xs)"
  by (induction xs arbitrary: m0) auto

lemma getHighestProbabilityClass_four:
  assumes "length ps = length CLASS_LABELS"
  shows "\<exists>label \<in> set CLASS_LABELS. getHighestProbabilityClass (Some ps) = Inr (Some label)"
proof -
  let ?maxIndex = "foldl (\<lambda>maxIndex index.
      if js_gt (number_at ps index) (number_at ps maxIndex) then index else maxIndex) 0 [0..<length ps]"
  have "?maxIndex \<in> insert 0 (set [0..<length ps])"
    by (rule foldl_pick)
  with assms have bound: "?maxIndex < length CLASS_LABELS"
    by (auto simp: CLASS_LABELS_def)
  then have "CLASS_LABELS ! ?maxIndex \<in> set CLASS_LABELS"
    by (rule nth_mem)
  moreover from assms bound
  have "getHighestProbabilityClass (Some ps) = Inr (Some (CLASS_LABELS ! ?maxIndex))"
    by (simp add: getHighestProbabilityClass_def malformed_cases Let_def)
  ultimately show ?thesis
    by blast
qed

text \<open>
  Claim C9. On a missing vector and on a vector whose length is not that of the label
  set (the empty one included), both \<^verbatim>\<open>formatProbabilities\<close> return their fixed fallback
  message and \<^verbatim>\<open>getHighestProbabilityClass\<close> its fallback label. On a vector of the
  right length they return one line per label, each with the percentage of the entry at
  the label's position, and the label of an entry. No input makes them raise, and no
  read goes past the end of the vector or of the labels.
\<close>

theorem format_probabilities_safe:
  "formatProbabilities sh None = Inr layout_fallback
   \<and> history_formatProbabilities sh None = Inr history_fallback
   \<and> getHighestProbabilityClass None = Inr (Some ''Bilinmeyen'')
   \<and> (length ps \<noteq> length CLASS_LABELS \<longrightarrow>
        formatProbabilities sh (Some ps) = Inr layout_fallback
        \<and> history_formatProbabilities sh (Some ps) = Inr history_fallback
        \<and> getHighestProbabilityClass (Some ps) = Inr (Some ''Bilinmeyen''))
   \<and> (length ps = length CLASS_LABELS \<longrightarrow>
        formatProbabilities sh (Some ps) =
          Inr (join newline (map2 (\<lambda>label p. label @ '': %'' @ percentage sh (Some p))
                 CLASS_LABELS ps))
        \<and> history_formatProbabilities sh (Some ps) =
          Inr (join newline (map2 (\<lambda>label p. label @ '': '' @ percentage sh (Some p) @ ''%'')
                 CLASS_LABELS ps))
        \<and> (\<exists>label \<in> set CLASS_LABELS. getHighestProbabilityClass (Some ps) = Inr (Some label))
        \<and> (\<forall>index < length CLASS_LABELS. js_get (Some ps) index = Inr (Some (ps ! index))))
   \<and> (\<exists>text. formatProbabilities sh probabilities = Inr text)
   \<and> (\<exists>text. history_formatProbabilities sh probabilities = Inr text)
   \<and> (\<exists>label. getHighestProbabilityClass probabilities = Inr (Some label))"
proof -
  have none: "formatProbabilities sh None = Inr layout_fallback"
    "history_formatProbabilities sh None = Inr history_fallback"
    "getHighestProbabilityClass None = Inr (Some ''Bilinmeyen'')"
    by (simp_all add: formatProbabilities_def history_formatProbabilities_def
        getHighestProbabilityClass_def malformed_cases)
  have wrong: "formatProbabilities sh (Some qs) = Inr layout_fallback
        \<and> history_formatProbabilities sh (Some qs) = Inr history_fallback
        \<and> getHighestProbabilityClass (Some qs) = Inr (Some ''Bilinmeyen'')"
    if "length qs \<noteq> length CLASS_LABELS" for qs
    using that
    by (simp add: formatProbabilities_def history_formatProbabilities_def
        getHighestProbabilityClass_def malformed_cases)
  have right: "formatProbabilities sh (Some qs) =
          Inr (join newline (map2 (\<lambda>label p. label @ '': %'' @ percentage sh (Some p))
                 CLASS_LABELS qs))
        \<and> history_formatProbabilities sh (Some qs) =
          Inr (join newline (map2 (\<lambda>label p. label @ '': '' @ percentage sh (Some p) @ ''%'')
                 CLASS_LABELS qs))
        \<and> (\<exists>label \<in> set CLASS_LABELS. getHighestProbabilityClass (Some qs) = Inr (Some label))
        \<and> (\<forall>index < length CLASS_LABELS. js_get (Some qs) index = Inr (Some (qs ! index)))"
    if len: "length qs = length CLASS_LABELS" for qs
  proof -
    from len have "length qs = 4"
      by (simp add: CLASS_LABELS_def)
    then obtain a b c d where qs: "qs = [a, b, c, d]"
      using four_elements by blast
    have reads: "\<forall>index < length CLASS_LABELS. js_get (Some qs) index = Inr (Some (qs ! index))"
      by (simp add: js_get_def len)
    from qs getHighestProbabilityClass_four [OF len]
    have "formatProbabilities sh (Some qs) =
          Inr (join newline (map2 (\<lambda>label p. label @ '': %'' @ percentage sh (Some p))
                 CLASS_LABELS qs))
        \<and> history_formatProbabilities sh (Some qs) =
          Inr (join newline (map2 (\<lambda>label p. label @ '': '' @ percentage sh (Some p) @ ''%'')
                 CLASS_LABELS qs))
        \<and> (\<exists>label \<in> set CLASS_LABELS. getHighestProbabilityClass (Some qs) = Inr (Some label))"
      by (simp only: formatProbabilities_four history_formatProbabilities_four)
    with reads show ?thesis
      by blast
  qed
  have total: "(\<exists>text. formatProbabilities sh probabilities = Inr text)
   \<and> (\<exists>text. history_formatProbabilities sh probabilities = Inr text)
   \<and> (\<exists>label. getHighestProbabilityClass probabilities = Inr (Some label))"
  proof (cases probabilities)
    case None
    with none show ?thesis by simp
  next
    case (Some qs)
    then show ?thesis
      using wrong [of qs] right [of qs] by (cases "length qs = length CLASS_LABELS") auto
  qed
  from none wrong [of ps] right [of ps] total show ?thesis
    by blast
qed

lemma example_product_90: "js_mul (Fin (9 / 10)) (Fin 100) = Fin 90"
  using to_double_representable [of 90 0] by simp

lemma example_product_3:
  "js_mul (Fin (1 / 30)) (Fin 100) = Fin (7505999378950827 / 2251799813685248)"
proof -
  have "to_double (1 / 30 * 100) = Fin (of_int 7505999378950827 * pow2 (1 - 52))"
    by (rule to_double_eqI) (simp_all add: pow2_def round_half_even_def Let_def floor_numeral_div)
  then show ?thesis
    by (simp add: pow2_def)
qed

lemma example_product_half: "js_mul (Fin (1 / 200)) (Fin 100) = Fin (1 / 2)"
  using to_double_representable [of 1 1] by simp

lemma example_percentage_90: "percentage example_shortest (Some (Fin (9 / 10))) = ''90.00''"
  by (simp add: percentage_def to_number_def example_product_90 toFixed2_def digit_char_def
      Let_def floor_numeral_div del: js_mul.simps)

lemma example_percentage_3: "percentage example_shortest (Some (Fin (1 / 30))) = ''3.33''"
  by (simp add: percentage_def to_number_def example_product_3 toFixed2_def digit_char_def
      Let_def floor_numeral_div del: js_mul.simps)

lemma example_percentage_half: "percentage example_shortest (Some (Fin (1 / 200))) = ''0.50''"
  by (simp add: percentage_def to_number_def example_product_half toFixed2_def digit_char_def
      Let_def floor_numeral_div del: js_mul.simps)

lemma example_listing:
  "join newline (map2 (\<lambda>label p. label @ '': %'' @ percentage example_shortest (Some p))
      CLASS_LABELS example_probabilities) =
   ''Glioma: %90.00'' @ newline @ ''No Tumor: %3.33'' @ newline @ ''Meningioma: %3.33''
     @ newline @ ''Pituitary: %0.50''"
  by (simp add: CLASS_LABELS_def example_probabilities_def example_percentage_90 example_percentage_3 example_percentage_half)

theorem format_probabilities_safe_witness:
  "formatProbabilities example_shortest (Some example_probabilities) =
     Inr (''Glioma: %90.00'' @ newline @ ''No Tumor: %3.33'' @ newline @ ''Meningioma: %3.33''
       @ newline @ ''Pituitary: %0.50'')
   \<and> formatProbabilities example_shortest (Some [Fin (9 / 10), Fin (1 / 10)]) = Inr layout_fallback
   \<and> formatProbabilities example_shortest (Some []) = Inr layout_fallback
   \<and> history_formatProbabilities example_shortest (Some []) = Inr history_fallback
   \<and> getHighestProbabilityClass (Some []) = Inr (Some ''Bilinmeyen'')"
proof -
  have len: "length example_probabilities = length CLASS_LABELS"
    "length [Fin (9 / 10), Fin (1 / 10)] \<noteq> length CLASS_LABELS"
    "length ([] :: jsnum list) \<noteq> length CLASS_LABELS"
    by (simp_all add: example_probabilities_def CLASS_LABELS_def)
  from format_probabilities_safe [of example_shortest example_probabilities None] len(1)
  have a: "formatProbabilities example_shortest (Some example_probabilities) =
     Inr (join newline (map2 (\<lambda>label p. label @ '': %'' @ percentage example_shortest (Some p))
      CLASS_LABELS example_probabilities))"
    by blast
  from format_probabilities_safe [of example_shortest "[Fin (9 / 10), Fin (1 / 10)]" None] len(2)
  have b: "formatProbabilities example_shortest (Some [Fin (9 / 10), Fin (1 / 10)]) = Inr layout_fallback"
    by blast
  from format_probabilities_safe [of example_shortest "[]" None] len(3)
  have c: "formatProbabilities example_shortest (Some []) = Inr layout_fallback
     \<and> history_formatProbabilities example_shortest (Some []) = Inr history_fallback
     \<and> getHighestProbabilityClass (Some []) = Inr (Some ''Bilinmeyen'')"
    by blast
  from a b c show ?thesis
    by (simp only: example_listing)
qed


end
